theory Spec2Isabelle
  imports Complex_Main "HOL-Library.Product_Lexorder" "HOL-Library.List_Lexorder"
begin

unbundle bit_operations_syntax

section \<open>Data model of shift\_tiles.py\<close>

text \<open>
  A GDAL geotransform is a tuple of six floats, read by index as \<open>gt[0]\<close> .. \<open>gt[5]\<close>.
  Floats are modelled by exact reals; what IEEE arithmetic adds beyond the reals is kept
  only where the program's control flow depends on it: the quotient of a division by
  zero, which numpy returns as an infinity or a NaN.
\<close>

record geotransform =
  gt0 :: real
  gt1 :: real
  gt2 :: real
  gt3 :: real
  gt4 :: real
  gt5 :: real

datatype npfloat = Finite real | Infinity | NaN

text \<open>
  The exceptions that can leave the functions of the module. \<open>ValueError\<close> and
  \<open>OverflowError\<close> are raised by Python's \<open>int()\<close> on a NaN and on an infinity.
  \<open>OutOfBoundsError\<close> and \<open>NotFoundError\<close> are the failures of the raster library
  (a window outside the band, a file that cannot be opened).
\<close>

datatype error = ValueError | OverflowError | OutOfBoundsError | NotFoundError

text \<open>
  The integer dtypes of numpy: unsigned or signed, with the number of bits. A byte
  raster (\<open>GDT_Byte\<close>) is read as \<open>uint8\<close>; the other integer types of GDAL are read as
  \<open>uint16\<close>, \<open>int16\<close>, \<open>uint32\<close> and \<open>int32\<close>. Rasters of floats are not modelled.
\<close>

datatype dtype = UInt nat | SInt nat

abbreviation uint8 :: dtype where "uint8 \<equiv> UInt 8"
abbreviation int16 :: dtype where "int16 \<equiv> SInt 16"
abbreviation GDT_Byte :: dtype where "GDT_Byte \<equiv> uint8"

text \<open>
  A two-dimensional numpy array: its shape (rows, columns), its dtype and its items,
  \<open>item a i j\<close> being \<open>a[i, j]\<close> (row \<open>i\<close>, column \<open>j\<close>).
\<close>

record ndarray =
  shape0 :: nat
  shape1 :: nat
  dtype :: dtype
  item :: "nat \<Rightarrow> nat \<Rightarrow> int"

text \<open>
  A raster band: its size in pixels, the dtype its samples are read as, and its samples
  by row and column.
\<close>

record band =
  XSize :: nat
  YSize :: nat
  DataType :: dtype
  sample :: "nat \<Rightarrow> nat \<Rightarrow> int"

text \<open>The direction flags \<open>W = 1<<0\<close>, \<open>N = 1<<1\<close>, \<open>E = 1<<2\<close>, \<open>S = 1<<3\<close>.\<close>

definition W :: int where "W = push_bit 0 1"
definition N :: int where "N = push_bit 1 1"
definition E :: int where "E = push_bit 2 1"
definition S :: int where "S = push_bit 3 1"

section \<open>The raster library\<close>

text \<open>
  Modelled from the spec: the GDAL call \<open>band.ReadAsArray(xoff, yoff, xsize, ysize)\<close>
  is not part of the repository. It returns the window of the band whose northwest
  pixel is (\<open>xoff\<close>, \<open>yoff\<close>), and fails when the window extends beyond the band's
  extent. The source has no handler around the call, so a failure leaves the calling
  function as an exception.
\<close>

definition ReadAsArray :: "band \<Rightarrow> int \<Rightarrow> int \<Rightarrow> nat \<Rightarrow> nat \<Rightarrow> error + ndarray" where
  "ReadAsArray b xoff yoff xsize ysize =
     (if 0 \<le> xoff \<and> 0 \<le> yoff \<and> xoff + int xsize \<le> int (XSize b)
         \<and> yoff + int ysize \<le> int (YSize b)
      then Inr \<lparr>shape0 = ysize, shape1 = xsize, dtype = DataType b,
                item = (\<lambda>i j. sample b (nat yoff + i) (nat xoff + j))\<rparr>
      else Inl OutOfBoundsError)"

text \<open>Modelled from the spec: \<open>band.ReadAsArray()\<close> without arguments reads the whole band.\<close>

definition ReadAsArray_all :: "band \<Rightarrow> ndarray" where
  "ReadAsArray_all b =
     \<lparr>shape0 = YSize b, shape1 = XSize b, dtype = DataType b, item = sample b\<rparr>"

section \<open>numpy and Python primitives\<close>

text \<open>
  Division of a numpy float by a float. In \<open>calc_colrow\<close> the dividends are computed from
  elements of the array that \<open>calc_xy\<close> returns, so they are numpy floats: a zero divisor
  raises nothing, it gives NaN for a zero dividend and an infinity (of either sign)
  otherwise, and numpy warns and goes on.
\<close>

definition np_divide :: "real \<Rightarrow> real \<Rightarrow> npfloat" where
  "np_divide a b = (if b \<noteq> 0 then Finite (a / b) else if a = 0 then NaN else Infinity)"

text \<open>\<open>int(x)\<close> for \<open>x\<close> an element of \<open>np.floor(...)\<close>.\<close>

definition int_floor :: "npfloat \<Rightarrow> error + int" where
  "int_floor v = (case v of Finite x \<Rightarrow> Inr \<lfloor>x\<rfloor> | Infinity \<Rightarrow> Inl OverflowError | NaN \<Rightarrow> Inl ValueError)"

text \<open>
  A bound of a Python slice over a sequence of length \<open>n\<close>: a negative bound counts
  from the end, and the result is clipped to \<open>0..n\<close>.
\<close>

definition slice_bound :: "int \<Rightarrow> nat \<Rightarrow> nat" where
  "slice_bound k n =
     (let k' = (if k < 0 then k + int n else k)
      in if k' < 0 then 0 else if int n < k' then n else nat k')"

text \<open>\<open>a[r0:r1, c0:c1]\<close>\<close>

definition slice2 :: "ndarray \<Rightarrow> int \<Rightarrow> int \<Rightarrow> int \<Rightarrow> int \<Rightarrow> ndarray" where
  "slice2 a r0 r1 c0 c1 =
     (let rs = slice_bound r0 (shape0 a); re = slice_bound r1 (shape0 a);
          cs = slice_bound c0 (shape1 a); ce = slice_bound c1 (shape1 a)
      in \<lparr>shape0 = re - rs, shape1 = ce - cs, dtype = dtype a,
          item = (\<lambda>i j. item a (rs + i) (cs + j))\<rparr>)"

text \<open>
  Integer arithmetic in a dtype wraps around: the result is the value modulo
  \<open>2 ^ bits\<close>, taken in \<open>0 .. 2 ^ bits - 1\<close> for an unsigned dtype and in
  \<open>- 2 ^ (bits - 1) .. 2 ^ (bits - 1) - 1\<close> for a signed one.
\<close>

fun wrap :: "dtype \<Rightarrow> int \<Rightarrow> int" where
  "wrap (UInt b) v = v mod 2 ^ b"
| "wrap (SInt b) v = (v + 2 ^ (b - 1)) mod 2 ^ b - 2 ^ (b - 1)"

text \<open>
  The dtype of the result of an operation on two integer arrays (\<open>np.promote_types\<close>):
  the wider one for two dtypes of the same kind; for an unsigned and a signed dtype,
  the signed one when it is wider, else the signed dtype of twice the unsigned bits.
  (For \<open>uint64\<close> and a signed dtype numpy goes to floats; no integer band of GDAL has
  more than 32 bits.) A Python integer that fits, as the 1 and the 0 of the module do,
  takes the dtype of the array.
\<close>

fun promote_types :: "dtype \<Rightarrow> dtype \<Rightarrow> dtype" where
  "promote_types (UInt a) (UInt b) = UInt (max a b)"
| "promote_types (SInt a) (SInt b) = SInt (max a b)"
| "promote_types (UInt a) (SInt b) = (if a < b then SInt b else SInt (2 * a))"
| "promote_types (SInt a) (UInt b) = (if b < a then SInt a else SInt (2 * b))"

text \<open>\<open>np.sum\<close> adds integers of less than 64 bits in \<open>uint64\<close> or \<open>int64\<close>.\<close>

fun sum_dtype :: "dtype \<Rightarrow> dtype" where
  "sum_dtype (UInt b) = UInt (max b 64)"
| "sum_dtype (SInt b) = SInt (max b 64)"

section \<open>Coordinate transform\<close>

definition calc_xy :: "geotransform \<Rightarrow> real \<Rightarrow> real \<Rightarrow> real \<times> real" where
  "calc_xy gt col row =
     (let x = gt0 gt + col * gt1 gt + row * gt2 gt;
          y = gt3 gt + col * gt4 gt + row * gt5 gt
      in (x, y))"

definition calc_colrow :: "geotransform \<Rightarrow> real \<Rightarrow> real \<Rightarrow> npfloat \<times> npfloat" where
  "calc_colrow gt x y =
     (let col = np_divide (x * gt5 gt - y * gt2 gt - gt0 gt * gt5 gt + gt2 gt * gt3 gt)
                          (gt1 gt * gt5 gt - gt2 gt * gt4 gt);
          row = np_divide (x * gt4 gt - y * gt1 gt - gt0 gt * gt4 gt + gt1 gt * gt3 gt)
                          (gt2 gt * gt4 gt - gt1 gt * gt5 gt)
      in (col, row))"

section \<open>The single-margin test\<close>

text \<open>
  The item \<open>[i, j]\<close> of \<open>outa - 1 - refouta\<close>: \<open>outa - 1\<close> is computed in the dtype of
  \<open>outa\<close>, and the difference with \<open>refouta\<close> in the dtype the two arrays promote to.
\<close>

definition diff_item :: "ndarray \<Rightarrow> ndarray \<Rightarrow> nat \<Rightarrow> nat \<Rightarrow> int" where
  "diff_item outa refouta i j =
     wrap (promote_types (dtype outa) (dtype refouta))
       (wrap (dtype outa) (item outa i j - 1) - item refouta i j)"

text \<open>
  \<open>np.sum(np.where(outa < 255, outa - 1 - refouta, 0))\<close>; the sum is computed in the
  64-bit dtype of the kind of the differences.
\<close>

definition diffsum :: "ndarray \<Rightarrow> ndarray \<Rightarrow> int" where
  "diffsum outa refouta =
     wrap (sum_dtype (promote_types (dtype outa) (dtype refouta)))
       (sum_list (map (\<lambda>i. sum_list (map (\<lambda>j.
           if item outa i j < 255 then diff_item outa refouta i j else 0)
         [0..<shape1 outa])) [0..<shape0 outa]))"

text \<open>
  The two nested loops over \<open>coff\<close> and \<open>roff\<close>, as the list of the offsets in the order
  the loops visit them, and the loop body with its early return.
\<close>

definition offsets :: "(nat \<times> nat) list" where
  "offsets = [(coff, roff). coff \<leftarrow> [0..<2], roff \<leftarrow> [0..<2]]"

fun test_offsets :: "band \<Rightarrow> geotransform \<Rightarrow> ndarray \<Rightarrow> real \<times> real \<Rightarrow> int \<times> int
    \<Rightarrow> (nat \<times> nat) list \<Rightarrow> error + (real \<times> real) option" where
  "test_offsets refband refgt outa outnwxy outnwcrf [] = Inr None"
| "test_offsets refband refgt outa outnwxy outnwcrf ((coff, roff) # rest) =
     (let c = fst outnwcrf + int coff;
          r = snd outnwcrf + int roff
      in case ReadAsArray refband c r (shape1 outa) (shape0 outa) of
           Inl e \<Rightarrow> Inl e
         | Inr refouta \<Rightarrow>
             if diffsum outa refouta = 0
             then (let refcrxy = calc_xy refgt (of_int c) (of_int r)
                   in Inr (Some (fst refcrxy - fst outnwxy, snd refcrxy - snd outnwxy)))
             else test_offsets refband refgt outa outnwxy outnwcrf rest)"

text \<open>Lines 44 to 49: the array is sliced only when some margin is non-zero.\<close>

definition trim :: "ndarray \<Rightarrow> int \<Rightarrow> int \<Rightarrow> int \<Rightarrow> int \<Rightarrow> ndarray" where
  "trim outa skipw skipn skipe skips =
     (let ncols = shape1 outa; nrows = shape0 outa
      in if skipw + skipn + skipe + skips \<noteq> 0
         then slice2 outa skipn (int nrows - skips) skipw (int ncols - skipe)
         else outa)"

definition calc_shift_skip :: "band \<Rightarrow> geotransform \<Rightarrow> ndarray \<Rightarrow> geotransform
    \<Rightarrow> int \<Rightarrow> int \<Rightarrow> int \<Rightarrow> int \<Rightarrow> error + (real \<times> real) option" where
  "calc_shift_skip refband refgt outa outgt skipw skipn skipe skips =
     (let outa' = trim outa skipw skipn skipe skips;
          outnwxy = calc_xy outgt (of_int skipw) (of_int skipn);
          outnwcr = calc_colrow refgt (fst outnwxy) (snd outnwxy)
      in case int_floor (fst outnwcr) of
           Inl e \<Rightarrow> Inl e
         | Inr c0 \<Rightarrow>
            (case int_floor (snd outnwcr) of
               Inl e \<Rightarrow> Inl e
             | Inr r0 \<Rightarrow> test_offsets refband refgt outa' outnwxy (c0, r0) offsets))"

section \<open>The search over the margins\<close>

type_synonym shift_result = "(real \<times> real) option \<times> int option"

text \<open>
  One block of \<open>calc_shift\<close>: \<open>shift = calc_shift_skip(...)\<close>, then
  \<open>if shift is not None: return shift, overlap\<close>, then the rest of the function.
\<close>

definition returning :: "error + (real \<times> real) option \<Rightarrow> int \<Rightarrow> error + shift_result
    \<Rightarrow> error + shift_result" where
  "returning r overlap rest =
     (case r of
        Inl e \<Rightarrow> Inl e
      | Inr None \<Rightarrow> rest
      | Inr (Some shift) \<Rightarrow> Inr (Some shift, Some overlap))"

definition calc_shift :: "band \<Rightarrow> geotransform \<Rightarrow> band \<Rightarrow> geotransform \<Rightarrow> error + shift_result" where
  "calc_shift refband refgt outband outgt =
     (let outa = ReadAsArray_all outband
      in returning (calc_shift_skip refband refgt outa outgt 0 0 0 0) 0
        (let ncols = shape1 outa;
             nrows = shape0 outa;
             skipwe = int (ncols div 3);
             skipns = int (nrows div 3)
         in returning (calc_shift_skip refband refgt outa outgt skipwe 0 0 0) W
           (returning (calc_shift_skip refband refgt outa outgt 0 skipns 0 0) N
           (returning (calc_shift_skip refband refgt outa outgt 0 0 skipwe 0) E
           (returning (calc_shift_skip refband refgt outa outgt 0 0 0 skipns) S
           (returning (calc_shift_skip refband refgt outa outgt skipwe skipns 0 0) (W OR N)
           (returning (calc_shift_skip refband refgt outa outgt skipwe 0 skipwe 0) (W OR E)
           (returning (calc_shift_skip refband refgt outa outgt skipwe 0 0 skipns) (W OR S)
           (returning (calc_shift_skip refband refgt outa outgt 0 skipns skipwe 0) (N OR E)
           (returning (calc_shift_skip refband refgt outa outgt 0 skipns 0 skipns) (N OR S)
           (returning (calc_shift_skip refband refgt outa outgt 0 0 skipwe skipns) (E OR S)
           (returning (calc_shift_skip refband refgt outa outgt skipwe skipns skipwe 0) (W OR N OR E)
           (returning (calc_shift_skip refband refgt outa outgt skipwe skipns 0 skipns) (W OR N OR S)
           (returning (calc_shift_skip refband refgt outa outgt skipwe 0 skipwe skipns) (W OR E OR S)
           (returning (calc_shift_skip refband refgt outa outgt 0 skipns skipwe skipns) (N OR E OR S)
           (returning (calc_shift_skip refband refgt outa outgt skipwe skipns skipwe skipns)
              (W OR N OR E OR S)
           (Inr (None, None))))))))))))))))))"

text \<open>
  The test of one candidate origin (lines 59 to 61), on its own: the window is read and
  the sum of the differences is compared with zero.
\<close>

definition candidate :: "band \<Rightarrow> ndarray \<Rightarrow> int \<Rightarrow> int \<Rightarrow> error + bool" where
  "candidate refband outa c r =
     (case ReadAsArray refband c r (shape1 outa) (shape0 outa) of
        Inl e \<Rightarrow> Inl e
      | Inr refouta \<Rightarrow> Inr (diffsum outa refouta = 0))"

section \<open>The search over the margins, as the specification words it\<close>

text \<open>
  The specification describes \<open>findShift\<close> as a loop: the zero margin first, then every
  non-empty subset of the four edges, by increasing number of edges and, for the same
  number, in the order West, North, East, South (the subsets compared edge by edge in
  that order). An excluded west or east edge has the margin \<open>skipWE\<close>, an excluded north
  or south edge the margin \<open>skipNS\<close>; the overlap mask of a subset is the union of its
  flags. A trial that raises ends the search with its exception.
\<close>

datatype edge = WEST | NORTH | EAST | SOUTH

fun flag :: "edge \<Rightarrow> int" where
  "flag WEST = W"
| "flag NORTH = N"
| "flag EAST = E"
| "flag SOUTH = S"

fun rank :: "edge \<Rightarrow> nat" where
  "rank WEST = 0"
| "rank NORTH = 1"
| "rank EAST = 2"
| "rank SOUTH = 3"

definition OverlapMask :: "edge list \<Rightarrow> int" where
  "OverlapMask es = foldl (\<lambda>m e. m OR flag e) 0 es"

definition edge_subsets :: "edge list list" where
  "edge_subsets = sort_key (\<lambda>es. (length es, map rank es))
      (filter (\<lambda>es. es \<noteq> []) (subseqs [WEST, NORTH, EAST, SOUTH]))"

definition tryShift :: "band \<Rightarrow> geotransform \<Rightarrow> ndarray \<Rightarrow> geotransform \<Rightarrow> nat \<Rightarrow> nat
    \<Rightarrow> edge list \<Rightarrow> error + (real \<times> real) option" where
  "tryShift refband refgt outa outgt skipWE skipNS es =
     calc_shift_skip refband refgt outa outgt
       (if WEST \<in> set es then int skipWE else 0)
       (if NORTH \<in> set es then int skipNS else 0)
       (if EAST \<in> set es then int skipWE else 0)
       (if SOUTH \<in> set es then int skipNS else 0)"

fun first_success :: "(edge list \<Rightarrow> error + (real \<times> real) option) \<Rightarrow> edge list list
    \<Rightarrow> error + shift_result" where
  "first_success t [] = Inr (None, None)"
| "first_success t (es # rest) =
     (case t es of
        Inl e \<Rightarrow> Inl e
      | Inr None \<Rightarrow> first_success t rest
      | Inr (Some found) \<Rightarrow> Inr (Some found, Some (OverlapMask es)))"

definition findShift :: "band \<Rightarrow> geotransform \<Rightarrow> band \<Rightarrow> geotransform \<Rightarrow> error + shift_result" where
  "findShift refband refgt outband outgt =
     (let outa = ReadAsArray_all outband
      in case tryShift refband refgt outa outgt 0 0 [] of
           Inl e \<Rightarrow> Inl e
         | Inr (Some found) \<Rightarrow> Inr (Some found, Some 0)
         | Inr None \<Rightarrow>
             first_success
               (tryShift refband refgt outa outgt (shape1 outa div 3) (shape0 outa div 3))
               edge_subsets)"

section \<open>Writing the shifted tile\<close>

text \<open>
  A raster file with one band: its geotransform, band 1, the band's no-data value and
  the projection. The files are a map from paths to rasters.
\<close>

record raster =
  GeoTransform :: geotransform
  RasterBand :: band
  NoDataValue :: "real option"
  Projection :: string

type_synonym files = "string \<Rightarrow> raster option"

text \<open>What \<open>print\<close> writes: the failure message, or the shift and the overlap.\<close>

datatype printed = Failed_to_shift | Shift_and_overlap "real \<times> real" "int option"

text \<open>
  Modelled from the spec: the GDAL calls that create and fill a raster are not part of
  the repository. \<open>Create\<close> makes a blank one-band raster of the given size and pixel
  type; \<open>WriteArray\<close> stores the items of an array in a band from its northwest corner
  (the conversion of samples that the band's pixel type cannot hold is not modelled:
  the module's tiles are byte rasters, and \<open>shift\<close> creates a byte raster). The setters
  store what they are given and do not fail.
\<close>

definition Create :: "nat \<Rightarrow> nat \<Rightarrow> dtype \<Rightarrow> raster" where
  "Create xsize ysize eType =
     \<lparr>GeoTransform = \<lparr>gt0 = 0, gt1 = 1, gt2 = 0, gt3 = 0, gt4 = 0, gt5 = 1\<rparr>,
      RasterBand = \<lparr>XSize = xsize, YSize = ysize, DataType = eType, sample = (\<lambda>i j. 0)\<rparr>,
      NoDataValue = None,
      Projection = []\<rparr>"

definition WriteArray :: "band \<Rightarrow> ndarray \<Rightarrow> band" where
  "WriteArray b a =
     b\<lparr>sample := (\<lambda>i j. if i < shape0 a \<and> j < shape1 a then item a i j else sample b i j)\<rparr>"

text \<open>
  \<open>shift\<close> returns what it printed, or the exception that left it, and the files as
  they are afterwards. A file that cannot be opened and an exception of \<open>calc_shift\<close>
  both come before the first write.
\<close>

definition shift :: "band \<Rightarrow> geotransform \<Rightarrow> string \<Rightarrow> string \<Rightarrow> files
    \<Rightarrow> (error + printed) \<times> files" where
  "shift refband refgt outfile newfile fs =
     (case fs outfile of
        None \<Rightarrow> (Inl NotFoundError, fs)
      | Some outrast \<Rightarrow>
         (let outband = RasterBand outrast;
              outgt = GeoTransform outrast
          in case calc_shift refband refgt outband outgt of
               Inl e \<Rightarrow> (Inl e, fs)
             | Inr (None, overlap) \<Rightarrow> (Inr Failed_to_shift, fs)
             | Inr (Some found, overlap) \<Rightarrow>
                (let outgt' = outgt\<lparr>gt0 := gt0 outgt + fst found, gt3 := gt3 outgt + snd found\<rparr>;
                     newrast = Create (XSize outband) (YSize outband) GDT_Byte;
                     newrast = newrast\<lparr>GeoTransform := outgt'\<rparr>;
                     newrast = newrast\<lparr>NoDataValue := NoDataValue outrast\<rparr>;
                     newrast = newrast\<lparr>RasterBand :=
                                 WriteArray (RasterBand newrast) (ReadAsArray_all outband)\<rparr>;
                     newrast = newrast\<lparr>Projection := Projection outrast\<rparr>
                 in (Inr (Shift_and_overlap found overlap), fs(newfile \<mapsto> newrast)))))"

section \<open>Concrete rasters\<close>

text \<open>
  The scenario of the specification: a 10 by 10 reference raster of 5s with transform
  (1000, 1, 0, 2000, 0, -1), and a 4 by 4 tile of 6s with transform
  (1003, 1, 0, 1997, 0, -1).
\<close>

definition ref10 :: band where
  "ref10 = \<lparr>XSize = 10, YSize = 10, DataType = uint8, sample = (\<lambda>i j. 5)\<rparr>"

definition ref10_gt :: geotransform where
  "ref10_gt = \<lparr>gt0 = 1000, gt1 = 1, gt2 = 0, gt3 = 2000, gt4 = 0, gt5 = - 1\<rparr>"

definition tile4 :: band where
  "tile4 = \<lparr>XSize = 4, YSize = 4, DataType = uint8, sample = (\<lambda>i j. 6)\<rparr>"

definition tile4_gt :: geotransform where
  "tile4_gt = \<lparr>gt0 = 1003, gt1 = 1, gt2 = 0, gt3 = 1997, gt4 = 0, gt5 = - 1\<rparr>"

text \<open>The same tile with its west column overwritten by 9s.\<close>

definition tile4_west :: band where
  "tile4_west = \<lparr>XSize = 4, YSize = 4, DataType = uint8, sample = (\<lambda>i j. if j = 0 then 9 else 6)\<rparr>"

text \<open>A tile of one pixel that matches the reference nowhere.\<close>

definition tile1 :: band where
  "tile1 = \<lparr>XSize = 1, YSize = 1, DataType = uint8, sample = (\<lambda>i j. 9)\<rparr>"

text \<open>
  The reference of 5s as an \<open>int16\<close> raster, and a byte tile of one row, (7, 5), whose
  two differences with it, 1 and -1, cancel.
\<close>

definition ref10_int16 :: band where
  "ref10_int16 = \<lparr>XSize = 10, YSize = 10, DataType = int16, sample = (\<lambda>i j. 5)\<rparr>"

definition tile_cancel :: band where
  "tile_cancel = \<lparr>XSize = 2, YSize = 1, DataType = uint8, sample = (\<lambda>i j. if j = 0 then 7 else 5)\<rparr>"

text \<open>
  A byte reference of 255s and a byte tile of one pixel 0: the difference 0 - 1 - 255 is
  -256 as an integer and 0 in \<open>uint8\<close>.
\<close>

definition ref255 :: band where
  "ref255 = \<lparr>XSize = 10, YSize = 10, DataType = uint8, sample = (\<lambda>i j. 255)\<rparr>"

definition tile_zero :: band where
  "tile_zero = \<lparr>XSize = 1, YSize = 1, DataType = uint8, sample = (\<lambda>i j. 0)\<rparr>"

text \<open>A tile with a no-data pixel in its northwest corner.\<close>

definition tile_nodata :: band where
  "tile_nodata = \<lparr>XSize = 2, YSize = 2, DataType = uint8, sample = (\<lambda>i j. if i = 0 \<and> j = 0 then 255 else 6)\<rparr>"

text \<open>
  A reference whose row 2 holds 9s, and a 2 by 2 tile of 6s whose corner falls at column
  3.5, row 2.5 of it: the candidate (3, 2) is inconsistent and the candidate (3, 3)
  is consistent.
\<close>

definition ref_row2 :: band where
  "ref_row2 = \<lparr>XSize = 10, YSize = 10, DataType = uint8, sample = (\<lambda>i j. if i = 2 then 9 else 5)\<rparr>"

definition tile2 :: band where
  "tile2 = \<lparr>XSize = 2, YSize = 2, DataType = uint8, sample = (\<lambda>i j. 6)\<rparr>"

definition tile2_gt :: geotransform where
  "tile2_gt = \<lparr>gt0 = 1003 + 1 / 2, gt1 = 1, gt2 = 0, gt3 = 1997 + 1 / 2, gt4 = 0, gt5 = - 1\<rparr>"

text \<open>
  The 4 by 4 tile half a pixel west of the reference's west edge: the first candidate
  column is -1, outside the reference, and the candidate (0, 0) matches.
\<close>

definition tile4_gt_west_edge :: geotransform where
  "tile4_gt_west_edge = \<lparr>gt0 = 1000 - 1 / 2, gt1 = 1, gt2 = 0, gt3 = 2000, gt4 = 0, gt5 = - 1\<rparr>"

text \<open>
  A 4 by 4 tile of 9s, which matches the reference nowhere, with pixels two reference
  pixels wide and its corner at column 5, row 3 of the reference: the four windows of
  the whole tile are inside the reference; without the west margin the corner is at
  column 7 and the window of the candidate column 8, three columns wide, is not.
\<close>

definition tile4_nines :: band where
  "tile4_nines = \<lparr>XSize = 4, YSize = 4, DataType = uint8, sample = (\<lambda>i j. 9)\<rparr>"

definition tile4_gt_coarse :: geotransform where
  "tile4_gt_coarse = \<lparr>gt0 = 1005, gt1 = 2, gt2 = 0, gt3 = 1997, gt4 = 0, gt5 = - 1\<rparr>"

text \<open>A degenerate transform: \<open>c1*c5 - c2*c4 = 1*4 - 2*2 = 0\<close>.\<close>

definition degenerate_gt :: geotransform where
  "degenerate_gt = \<lparr>gt0 = 1000, gt1 = 1, gt2 = 2, gt3 = 2000, gt4 = 2, gt5 = 4\<rparr>"

text \<open>The files of the scenario: the tile under one name, nothing else.\<close>

definition tile_raster :: "band \<Rightarrow> raster" where
  "tile_raster b = \<lparr>GeoTransform = tile4_gt, RasterBand = b, NoDataValue = Some 255,
                    Projection = ''EPSG:5070''\<rparr>"

definition tile_files :: "band \<Rightarrow> files" where
  "tile_files b = (\<lambda>p. None)(''tile.tif'' \<mapsto> tile_raster b)"

section \<open>Auxiliary facts\<close>

lemma flags: "W = 1" "N = 2" "E = 4" "S = 8"
  by (simp_all add: W_def N_def E_def S_def)

lemma offsets_eq: "offsets = [(0, 0), (0, 1), (1, 0), (1, 1)]"
  by (simp add: offsets_def upt_rec)

lemma edge_subsets_eq:
  "edge_subsets = [[WEST], [NORTH], [EAST], [SOUTH],
     [WEST, NORTH], [WEST, EAST], [WEST, SOUTH], [NORTH, EAST], [NORTH, SOUTH], [EAST, SOUTH],
     [WEST, NORTH, EAST], [WEST, NORTH, SOUTH], [WEST, EAST, SOUTH], [NORTH, EAST, SOUTH],
     [WEST, NORTH, EAST, SOUTH]]"
  by (simp add: edge_subsets_def less_eq_prod_def)

lemma OverlapMask_simps:
  "OverlapMask [] = 0"
  "OverlapMask [WEST] = W" "OverlapMask [NORTH] = N"
  "OverlapMask [EAST] = E" "OverlapMask [SOUTH] = S"
  "OverlapMask [WEST, NORTH] = W OR N" "OverlapMask [WEST, EAST] = W OR E"
  "OverlapMask [WEST, SOUTH] = W OR S" "OverlapMask [NORTH, EAST] = N OR E"
  "OverlapMask [NORTH, SOUTH] = N OR S" "OverlapMask [EAST, SOUTH] = E OR S"
  "OverlapMask [WEST, NORTH, EAST] = W OR N OR E"
  "OverlapMask [WEST, NORTH, SOUTH] = W OR N OR S"
  "OverlapMask [WEST, EAST, SOUTH] = W OR E OR S"
  "OverlapMask [NORTH, EAST, SOUTH] = N OR E OR S"
  "OverlapMask [WEST, NORTH, EAST, SOUTH] = W OR N OR E OR S"
  by (simp_all add: OverlapMask_def or.assoc)

text \<open>One step of the specification's loop is one block of \<open>calc_shift\<close>.\<close>

lemma first_success_returning:
  "first_success t (es # rest) = returning (t es) (OverlapMask es) (first_success t rest)"
  by (simp add: returning_def split: sum.splits option.splits)

lemma calc_shift_findShift:
  "calc_shift refband refgt outband outgt = findShift refband refgt outband outgt"
proof -
  have z: "\<And>b r. (case r of Inl e \<Rightarrow> Inl e | Inr None \<Rightarrow> b
                    | Inr (Some found) \<Rightarrow> Inr (Some found, Some (0::int)))
     = returning r 0 b"
    by (simp add: returning_def)
  show ?thesis
    unfolding calc_shift_def findShift_def edge_subsets_eq Let_def
    by (simp only: first_success_returning first_success.simps(1) OverlapMask_simps
          tryShift_def list.set insert_iff empty_iff edge.distinct simp_thms if_True if_False
          z of_nat_0)
qed

lemma candidate_error: "candidate refband outa c r = Inl e \<Longrightarrow> e = OutOfBoundsError"
  by (auto simp: candidate_def ReadAsArray_def split: if_splits)

lemma test_offsets_Cons:
  "test_offsets refband refgt outa outnwxy (c0, r0) ((coff, roff) # rest) =
     (case candidate refband outa (c0 + int coff) (r0 + int roff) of
        Inl e \<Rightarrow> Inl e
      | Inr ok \<Rightarrow>
          if ok
          then Inr (Some
            (fst (calc_xy refgt (of_int (c0 + int coff)) (of_int (r0 + int roff))) - fst outnwxy,
             snd (calc_xy refgt (of_int (c0 + int coff)) (of_int (r0 + int roff))) - snd outnwxy))
          else test_offsets refband refgt outa outnwxy (c0, r0) rest)"
  by (simp add: candidate_def Let_def split: sum.splits)

lemma calc_shift_skip_finite:
  assumes "calc_colrow refgt (fst (calc_xy outgt (of_int skipw) (of_int skipn)))
             (snd (calc_xy outgt (of_int skipw) (of_int skipn))) = (Finite col, Finite row)"
  shows "calc_shift_skip refband refgt outa outgt skipw skipn skipe skips =
           test_offsets refband refgt (trim outa skipw skipn skipe skips)
             (calc_xy outgt (of_int skipw) (of_int skipn)) (\<lfloor>col\<rfloor>, \<lfloor>row\<rfloor>)
             [(0, 0), (0, 1), (1, 0), (1, 1)]"
  using assms by (simp add: calc_shift_skip_def Let_def int_floor_def offsets_eq)

lemma sum_list_upt_sum: "sum_list (map f [0..<n]) = sum f {..<n}"
  by (induction n) simp_all

lemma diffsum_sum:
  "diffsum outa refouta =
     wrap (sum_dtype (promote_types (dtype outa) (dtype refouta)))
       (\<Sum>i<shape0 outa. \<Sum>j<shape1 outa.
          if item outa i j < 255 then diff_item outa refouta i j else 0)"
  by (simp add: diffsum_def sum_list_upt_sum)

lemma sum_below_sentinel:
  "(\<Sum>i<shape0 outa. \<Sum>j<shape1 outa. if item outa i j < 255 then g i j else 0) =
     (\<Sum>(i, j) \<in> {(i, j). i < shape0 outa \<and> j < shape1 outa \<and> item outa i j < 255}. g i j)"
  for g :: "nat \<Rightarrow> nat \<Rightarrow> int"
proof -
  let ?A = "{..<shape0 outa} \<times> {..<shape1 outa}"
  let ?g = "\<lambda>(i, j). g i j"
  let ?P = "\<lambda>(i, j). item outa i j < 255"
  have "(\<Sum>i<shape0 outa. \<Sum>j<shape1 outa. if item outa i j < 255 then g i j else 0)
      = (\<Sum>x\<in>?A. if ?P x then ?g x else 0)"
    unfolding sum.cartesian_product
    by (rule sum.cong) auto
  also have "\<dots> = sum ?g {x \<in> ?A. ?P x}"
    by (rule sum.inter_filter [symmetric]) simp
  also have "{x \<in> ?A. ?P x}
      = {(i, j). i < shape0 outa \<and> j < shape1 outa \<and> item outa i j < 255}"
    by auto
  finally show ?thesis .
qed

lemma diffsum_below_sentinel:
  "diffsum outa refouta =
     wrap (sum_dtype (promote_types (dtype outa) (dtype refouta)))
       (\<Sum>(i, j) \<in> {(i, j). i < shape0 outa \<and> j < shape1 outa \<and> item outa i j < 255}.
          diff_item outa refouta i j)"
  by (simp only: diffsum_sum sum_below_sentinel)

lemma diffsum_cong:
  assumes "dtype refouta' = dtype refouta"
    and "\<And>i j. i < shape0 outa \<Longrightarrow> j < shape1 outa \<Longrightarrow> item outa i j < 255
             \<Longrightarrow> item refouta i j = item refouta' i j"
  shows "diffsum outa refouta = diffsum outa refouta'"
proof -
  have "(\<Sum>i<shape0 outa. \<Sum>j<shape1 outa.
          if item outa i j < 255 then diff_item outa refouta i j else 0)
      = (\<Sum>i<shape0 outa. \<Sum>j<shape1 outa.
          if item outa i j < 255 then diff_item outa refouta' i j else 0)"
    by (intro sum.cong refl) (simp add: assms diff_item_def)
  then show ?thesis
    by (simp add: diffsum_sum assms(1))
qed

lemma diff_item_uint8:
  assumes "dtype outa = uint8" and "dtype refouta = uint8"
  shows "diff_item outa refouta i j = (item outa i j - 1 - item refouta i j) mod 256"
  by (simp add: diff_item_def assms mod_diff_left_eq)

text \<open>
  For two byte arrays every difference is computed modulo 256 and none is negative:
  the sum is zero only when every pixel below 255 is the reference plus 1 modulo 256,
  and no two differences cancel. (The bound on the size keeps the sum below \<open>2 ^ 64\<close>.)
\<close>

lemma diffsum_uint8:
  assumes o: "dtype outa = uint8" and r: "dtype refouta = uint8"
    and size: "int (shape0 outa) * int (shape1 outa) < 2 ^ 56"
  shows "diffsum outa refouta = 0 \<longleftrightarrow>
     (\<forall>i<shape0 outa. \<forall>j<shape1 outa. item outa i j < 255
        \<longrightarrow> (item outa i j - 1 - item refouta i j) mod 256 = 0)"
proof -
  define t where "t i j = (if item outa i j < 255 then diff_item outa refouta i j else 0)"
    for i j
  have m: "x mod 256 \<le> 255" for x :: int
    using pos_mod_bound [of 256 x] by simp
  have t0: "0 \<le> t i j" and t255: "t i j \<le> 255" for i j
    by (simp_all add: t_def diff_item_uint8 [OF o r] m)
  define total where "total = (\<Sum>i<shape0 outa. \<Sum>j<shape1 outa. t i j)"
  have row0: "0 \<le> (\<Sum>j<shape1 outa. t i j)" for i
    by (intro sum_nonneg t0)
  have total0: "0 \<le> total"
    unfolding total_def by (intro sum_nonneg row0)
  have "total \<le> (\<Sum>i<shape0 outa. \<Sum>j<shape1 outa. 255)"
    unfolding total_def by (intro sum_mono t255)
  also have "\<dots> = 255 * (int (shape0 outa) * int (shape1 outa))"
    by simp
  also have "\<dots> < 255 * 2 ^ 56"
    using size by (intro mult_strict_left_mono) simp_all
  also have "\<dots> < (18446744073709551616 :: int)"
    by simp
  finally have small: "total < 18446744073709551616" .
  have "diffsum outa refouta = total mod 18446744073709551616"
    by (simp add: diffsum_sum total_def t_def o r)
  also have "\<dots> = total"
    using total0 small by (rule mod_pos_pos_trivial)
  finally have d: "diffsum outa refouta = total" .
  have "total = 0 \<longleftrightarrow> (\<forall>i<shape0 outa. (\<Sum>j<shape1 outa. t i j) = 0)"
    unfolding total_def using row0 by (subst sum_nonneg_eq_0_iff) auto
  also have "\<dots> \<longleftrightarrow> (\<forall>i<shape0 outa. \<forall>j<shape1 outa. t i j = 0)"
    using t0 by (subst sum_nonneg_eq_0_iff) auto
  also have "\<dots> \<longleftrightarrow> (\<forall>i<shape0 outa. \<forall>j<shape1 outa. item outa i j < 255
        \<longrightarrow> (item outa i j - 1 - item refouta i j) mod 256 = 0)"
    by (auto simp: t_def diff_item_uint8 [OF o r])
  finally show ?thesis
    by (simp only: d)
qed

text \<open>Two byte arrays: every difference is taken modulo 256, the sum modulo \<open>2 ^ 64\<close>.\<close>

lemma diffsum_bytes:
  assumes "dtype outa = uint8" and "dtype refouta = uint8"
  shows "diffsum outa refouta =
     (\<Sum>(i, j) \<in> {(i, j). i < shape0 outa \<and> j < shape1 outa \<and> item outa i j < 255}.
        (item outa i j - 1 - item refouta i j) mod 256) mod 2 ^ 64"
  by (simp add: diffsum_below_sentinel diff_item_uint8 [OF assms] assms)

text \<open>
  A byte array and an \<open>int16\<close> array: the differences are computed in \<open>int16\<close> and the
  sum in \<open>int64\<close>; nothing wraps when the output pixels below 255 are at least 1 and the
  differences are in the range of \<open>int16\<close>.
\<close>

lemma diff_item_uint8_int16:
  assumes "dtype outa = uint8" and "dtype refouta = int16"
    and "1 \<le> item outa i j" and "item outa i j < 255"
    and "- 32768 \<le> item outa i j - 1 - item refouta i j"
    and "item outa i j - 1 - item refouta i j \<le> 32767"
  shows "diff_item outa refouta i j = item outa i j - 1 - item refouta i j"
proof -
  have a: "(item outa i j - 1) mod 256 = item outa i j - 1"
    using assms(3,4) by (intro mod_pos_pos_trivial) simp_all
  have b: "(item outa i j - 1 - item refouta i j + 32768) mod 65536
      = item outa i j - 1 - item refouta i j + 32768"
    using assms(5,6) by (intro mod_pos_pos_trivial) simp_all
  have "diff_item outa refouta i j
      = ((item outa i j - 1) mod 256 - item refouta i j + 32768) mod 65536 - 32768"
    by (simp add: diff_item_def assms(1,2))
  also have "\<dots> = item outa i j - 1 - item refouta i j + 32768 - 32768"
    by (simp only: a b)
  finally show ?thesis
    by simp
qed

lemma diffsum_uint8_int16:
  assumes o: "dtype outa = uint8" and r: "dtype refouta = int16"
    and size: "int (shape0 outa) * int (shape1 outa) < 2 ^ 47"
    and rng: "\<And>i j. i < shape0 outa \<Longrightarrow> j < shape1 outa \<Longrightarrow> item outa i j < 255
      \<Longrightarrow> 1 \<le> item outa i j \<and> - 32768 \<le> item outa i j - 1 - item refouta i j
          \<and> item outa i j - 1 - item refouta i j \<le> 32767"
  shows "diffsum outa refouta =
     (\<Sum>(i, j) \<in> {(i, j). i < shape0 outa \<and> j < shape1 outa \<and> item outa i j < 255}.
        item outa i j - 1 - item refouta i j)"
proof -
  define t where "t i j = (if item outa i j < 255 then item outa i j - 1 - item refouta i j else 0)"
    for i j
  have tl: "- 32768 \<le> t i j" and tu: "t i j \<le> 32768" if "i < shape0 outa" "j < shape1 outa" for i j
    using rng [OF that] by (auto simp: t_def)
  define total where "total = (\<Sum>i<shape0 outa. \<Sum>j<shape1 outa. t i j)"
  have eq: "(\<Sum>i<shape0 outa. \<Sum>j<shape1 outa.
          if item outa i j < 255 then diff_item outa refouta i j else 0) = total"
    unfolding total_def
  proof (intro sum.cong refl)
    fix i j
    assume "i \<in> {..<shape0 outa}" and "j \<in> {..<shape1 outa}"
    then have "i < shape0 outa" and "j < shape1 outa"
      by simp_all
    from rng [OF this] show "(if item outa i j < 255 then diff_item outa refouta i j else 0) = t i j"
      by (auto simp: t_def diff_item_uint8_int16 [OF o r])
  qed
  have "total \<le> (\<Sum>i<shape0 outa. \<Sum>j<shape1 outa. 32768)"
    unfolding total_def by (intro sum_mono tu) simp_all
  also have "\<dots> = 32768 * (int (shape0 outa) * int (shape1 outa))"
    by simp
  also have "\<dots> < 32768 * 2 ^ 47"
    using size by (intro mult_strict_left_mono) simp_all
  also have "\<dots> = (4611686018427387904 :: int)"
    by simp
  finally have up: "total < 4611686018427387904" .
  have "- (32768 * (int (shape0 outa) * int (shape1 outa)))
      = (\<Sum>i<shape0 outa. \<Sum>j<shape1 outa. - 32768)"
    by simp
  also have "\<dots> \<le> total"
    unfolding total_def by (intro sum_mono tl) simp_all
  finally have "- (32768 * (int (shape0 outa) * int (shape1 outa))) \<le> total" .
  moreover have "32768 * (int (shape0 outa) * int (shape1 outa)) < 32768 * 2 ^ 47"
    using size by (intro mult_strict_left_mono) simp_all
  ultimately have lo: "- 4611686018427387904 < total"
    by simp
  have w: "(total + 9223372036854775808) mod 18446744073709551616 = total + 9223372036854775808"
    using lo up by (intro mod_pos_pos_trivial) simp_all
  have "diffsum outa refouta = total"
    by (simp add: diffsum_sum eq o r w)
  also have "total = (\<Sum>(i, j) \<in> {(i, j). i < shape0 outa \<and> j < shape1 outa \<and> item outa i j < 255}.
        item outa i j - 1 - item refouta i j)"
    unfolding total_def t_def by (rule sum_below_sentinel)
  finally show ?thesis .
qed

text \<open>A sum over the pixels below 255, as the loops that evaluate it.\<close>

lemma sum_below_sentinel_list:
  "(\<Sum>(i, j) \<in> {(i, j). i < shape0 outa \<and> j < shape1 outa \<and> item outa i j < 255}. g i j) =
     sum_list (map (\<lambda>i. sum_list (map (\<lambda>j. if item outa i j < 255 then g i j else 0)
       [0..<shape1 outa])) [0..<shape0 outa])"
  for g :: "nat \<Rightarrow> nat \<Rightarrow> int"
  by (simp only: sum_below_sentinel [symmetric] sum_list_upt_sum)

text \<open>The definitions a concrete run unfolds.\<close>

lemmas run_defs = calc_shift_def returning_def calc_shift_skip_def trim_def slice2_def
  slice_bound_def calc_xy_def calc_colrow_def np_divide_def int_floor_def offsets_eq
  ReadAsArray_def ReadAsArray_all_def diffsum_def diff_item_def flags

section \<open>Properties of the module\<close>

subsection \<open>The order of the margin trials\<close>

text \<open>
  C1. \<open>calc_shift\<close> is the loop of the specification: the zero margin first, returned
  with overlap 0; then, with \<open>skipWE = ncols div 3\<close> and \<open>skipNS = nrows div 3\<close>, the 15
  non-empty subsets of the edges by increasing size and, within a size, in the order
  W, N, E, S of their edges; the first subset whose test finds a shift is returned with
  its overlap mask, and (None, None) is returned when all 15 fail. The order of the
  subsets and of their masks is the one listed.
\<close>

theorem calc_shift_margin_order:
  "calc_shift refband refgt outband outgt = findShift refband refgt outband outgt
   \<and> edge_subsets = [[WEST], [NORTH], [EAST], [SOUTH],
       [WEST, NORTH], [WEST, EAST], [WEST, SOUTH], [NORTH, EAST], [NORTH, SOUTH], [EAST, SOUTH],
       [WEST, NORTH, EAST], [WEST, NORTH, SOUTH], [WEST, EAST, SOUTH], [NORTH, EAST, SOUTH],
       [WEST, NORTH, EAST, SOUTH]]
   \<and> map OverlapMask edge_subsets = [1, 2, 4, 8, 3, 5, 9, 6, 10, 12, 7, 11, 13, 14, 15]"
proof (intro conjI)
  show "calc_shift refband refgt outband outgt = findShift refband refgt outband outgt"
    by (rule calc_shift_findShift)
  show "edge_subsets = [[WEST], [NORTH], [EAST], [SOUTH],
       [WEST, NORTH], [WEST, EAST], [WEST, SOUTH], [NORTH, EAST], [NORTH, SOUTH], [EAST, SOUTH],
       [WEST, NORTH, EAST], [WEST, NORTH, SOUTH], [WEST, EAST, SOUTH], [NORTH, EAST, SOUTH],
       [WEST, NORTH, EAST, SOUTH]]"
    by (rule edge_subsets_eq)
  show "map OverlapMask edge_subsets = [1, 2, 4, 8, 3, 5, 9, 6, 10, 12, 7, 11, 13, 14, 15]"
    by (simp add: edge_subsets_eq OverlapMask_simps flags)
qed

text \<open>
  On the tile whose west column is overwritten the whole tile fails and the west margin
  is the first to succeed: the overlap is W, although the test with the west and north
  margins succeeds as well.
\<close>

lemma calc_shift_west_margin:
  "calc_shift ref10 ref10_gt tile4_west tile4_gt = Inr (Some (0, 0), Some W)
   \<and> tryShift ref10 ref10_gt (ReadAsArray_all tile4_west) tile4_gt 1 1 [WEST, NORTH]
       = Inr (Some (0, 0))"
  by (simp add: run_defs tryShift_def ref10_def ref10_gt_def tile4_west_def tile4_gt_def upt_rec)

subsection \<open>The single-margin test\<close>

text \<open>
  Not every input gets a shift or None. The coarse tile of 9s without its west margin
  has its corner at column 7, row 3: the candidates (7, 3) and (7, 4) are read and are
  inconsistent, the windows of (8, 3) and (8, 4) are outside the reference, so no
  candidate is consistent, and the test raises where None was expected. With the
  degenerate reference transform there is no floored corner either: the test raises
  before any candidate.
\<close>

theorem calc_shift_skip_raises_counterexample:
  "candidate ref10 (trim (ReadAsArray_all tile4_nines) 1 0 0 0) 7 3 = Inr False
   \<and> candidate ref10 (trim (ReadAsArray_all tile4_nines) 1 0 0 0) 7 4 = Inr False
   \<and> candidate ref10 (trim (ReadAsArray_all tile4_nines) 1 0 0 0) 8 3 = Inl OutOfBoundsError
   \<and> candidate ref10 (trim (ReadAsArray_all tile4_nines) 1 0 0 0) 8 4 = Inl OutOfBoundsError
   \<and> calc_colrow ref10_gt (fst (calc_xy tile4_gt_coarse (of_int 1) (of_int 0)))
        (snd (calc_xy tile4_gt_coarse (of_int 1) (of_int 0))) = (Finite 7, Finite 3)
   \<and> calc_shift_skip ref10 ref10_gt (ReadAsArray_all tile4_nines) tile4_gt_coarse 1 0 0 0
        = Inl OutOfBoundsError
   \<and> calc_shift_skip ref10 degenerate_gt (ReadAsArray_all tile4) tile4_gt 0 0 0 0
        = Inl OverflowError"
  by (simp add: run_defs candidate_def ref10_def ref10_gt_def tile4_nines_def tile4_def
        tile4_gt_coarse_def tile4_gt_def degenerate_gt_def upt_rec)

text \<open>
  C2, as the code has it. In \<open>calc_shift_skip\<close> the northwest corner of the trimmed
  array, (skipw, skipn), is mapped by the output transform and then by the inverse
  reference transform; when the result is a pair of numbers (col, row), it is floored
  to (c, r), and the candidates (c, r), (c, r+1), (c+1, r), (c+1, r+1) are tested in
  this order. The first consistent one gives the result, the shift from the tile's
  corner to that candidate, whatever the later candidates are; when all four are read
  and none is consistent the result is None; and when a window cannot be read before a
  candidate matched, the test raises the read's error.
\<close>

theorem calc_shift_skip_first_consistent:
  assumes "calc_colrow refgt (fst (calc_xy outgt (of_int skipw) (of_int skipn)))
             (snd (calc_xy outgt (of_int skipw) (of_int skipn))) = (Finite col, Finite row)"
  shows "calc_shift_skip refband refgt outa outgt skipw skipn skipe skips =
     (let c = \<lfloor>col\<rfloor>; r = \<lfloor>row\<rfloor>;
          ok = (\<lambda>dc dr. candidate refband (trim outa skipw skipn skipe skips) (c + dc) (r + dr));
          to = (\<lambda>dc dr.
            (fst (calc_xy refgt (of_int (c + dc)) (of_int (r + dr)))
               - fst (calc_xy outgt (of_int skipw) (of_int skipn)),
             snd (calc_xy refgt (of_int (c + dc)) (of_int (r + dr)))
               - snd (calc_xy outgt (of_int skipw) (of_int skipn))))
      in if ok 0 0 = Inr True then Inr (Some (to 0 0))
         else if ok 0 0 = Inr False \<and> ok 0 1 = Inr True then Inr (Some (to 0 1))
         else if ok 0 0 = Inr False \<and> ok 0 1 = Inr False \<and> ok 1 0 = Inr True
           then Inr (Some (to 1 0))
         else if ok 0 0 = Inr False \<and> ok 0 1 = Inr False \<and> ok 1 0 = Inr False
                 \<and> ok 1 1 = Inr True
           then Inr (Some (to 1 1))
         else if ok 0 0 = Inr False \<and> ok 0 1 = Inr False \<and> ok 1 0 = Inr False
                 \<and> ok 1 1 = Inr False
           then Inr None
         else Inl OutOfBoundsError)"
proof -
  let ?a = "trim outa skipw skipn skipe skips"
  let ?k = "\<lambda>dc dr. candidate refband ?a (\<lfloor>col\<rfloor> + dc) (\<lfloor>row\<rfloor> + dr)"
  show ?thesis
    unfolding calc_shift_skip_finite [OF assms] test_offsets_Cons test_offsets.simps(1) Let_def
    by (cases "?k 0 0"; cases "?k 0 1"; cases "?k 1 0"; cases "?k 1 1")
       (auto dest: candidate_error)
qed

text \<open>
  The tile's corner falls at column 3.5, row 2.5 of the reference: (3, 2) is tested
  first and is inconsistent, (3, 3) is consistent, and the shift is (-0.5, -0.5).
\<close>

theorem calc_shift_skip_first_consistent_witness:
  "calc_colrow ref10_gt (fst (calc_xy tile2_gt (of_int 0) (of_int 0)))
       (snd (calc_xy tile2_gt (of_int 0) (of_int 0))) = (Finite (7 / 2), Finite (5 / 2))
   \<and> candidate ref_row2 (ReadAsArray_all tile2) 3 2 = Inr False
   \<and> candidate ref_row2 (ReadAsArray_all tile2) 3 3 = Inr True
   \<and> calc_shift_skip ref_row2 ref10_gt (ReadAsArray_all tile2) tile2_gt 0 0 0 0
       = Inr (Some (- 1 / 2, - 1 / 2))"
proof -
  have h: "calc_colrow ref10_gt (fst (calc_xy tile2_gt (of_int 0) (of_int 0)))
       (snd (calc_xy tile2_gt (of_int 0) (of_int 0))) = (Finite (7 / 2), Finite (5 / 2))"
    by (simp add: calc_colrow_def calc_xy_def np_divide_def ref10_gt_def tile2_gt_def)
  have f: "\<lfloor>7 / 2 :: real\<rfloor> = 3" "\<lfloor>5 / 2 :: real\<rfloor> = 2"
    by simp_all
  have k0: "candidate ref_row2 (ReadAsArray_all tile2) 3 2 = Inr False"
    by (simp add: candidate_def ReadAsArray_def ReadAsArray_all_def diffsum_def diff_item_def
          ref_row2_def tile2_def upt_rec)
  have k1: "candidate ref_row2 (ReadAsArray_all tile2) 3 3 = Inr True"
    by (simp add: candidate_def ReadAsArray_def ReadAsArray_all_def diffsum_def diff_item_def
          ref_row2_def tile2_def upt_rec)
  have "calc_shift_skip ref_row2 ref10_gt (ReadAsArray_all tile2) tile2_gt 0 0 0 0
       = Inr (Some (- 1 / 2, - 1 / 2))"
    using calc_shift_skip_first_consistent [OF h, of ref_row2 "ReadAsArray_all tile2" 0 0] k0 k1
    by (simp add: f trim_def Let_def calc_xy_def ref10_gt_def tile2_gt_def)
  with h k0 k1 show ?thesis by simp
qed

subsection \<open>The consistency sum\<close>

text \<open>
  The sum of the integers (output - 1) - reference does not decide a candidate on byte
  rasters. The byte tile (7, 5) on the byte reference of 5s has the integer sum
  1 + (-1) = 0, but in \<open>uint8\<close> the second difference is 255, the sum is 256, and the
  candidate is refused. The byte tile 0 on the byte reference of 255s has the integer
  sum -256, but in \<open>uint8\<close> the difference is 0 and the candidate is taken.
\<close>

theorem diffsum_integer_counterexample:
  "ReadAsArray ref10 3 3 (shape1 (ReadAsArray_all tile_cancel)) (shape0 (ReadAsArray_all tile_cancel))
     = Inr \<lparr>shape0 = 1, shape1 = 2, dtype = uint8, item = (\<lambda>i j. 5)\<rparr>
   \<and> (\<Sum>(i, j) \<in> {(i, j). i < shape0 (ReadAsArray_all tile_cancel)
                         \<and> j < shape1 (ReadAsArray_all tile_cancel)
                         \<and> item (ReadAsArray_all tile_cancel) i j < 255}.
          item (ReadAsArray_all tile_cancel) i j - 1
            - item \<lparr>shape0 = 1, shape1 = 2, dtype = uint8, item = (\<lambda>i j. 5)\<rparr> i j) = 0
   \<and> diffsum (ReadAsArray_all tile_cancel)
        \<lparr>shape0 = 1, shape1 = 2, dtype = uint8, item = (\<lambda>i j. 5)\<rparr> = 256
   \<and> candidate ref10 (ReadAsArray_all tile_cancel) 3 3 = Inr False
   \<and> calc_shift_skip ref10 ref10_gt (ReadAsArray_all tile_cancel) tile4_gt 0 0 0 0 = Inr None
   \<and> ReadAsArray ref255 3 3 (shape1 (ReadAsArray_all tile_zero)) (shape0 (ReadAsArray_all tile_zero))
     = Inr \<lparr>shape0 = 1, shape1 = 1, dtype = uint8, item = (\<lambda>i j. 255)\<rparr>
   \<and> (\<Sum>(i, j) \<in> {(i, j). i < shape0 (ReadAsArray_all tile_zero)
                         \<and> j < shape1 (ReadAsArray_all tile_zero)
                         \<and> item (ReadAsArray_all tile_zero) i j < 255}.
          item (ReadAsArray_all tile_zero) i j - 1
            - item \<lparr>shape0 = 1, shape1 = 1, dtype = uint8, item = (\<lambda>i j. 255)\<rparr> i j) = - 256
   \<and> diffsum (ReadAsArray_all tile_zero)
        \<lparr>shape0 = 1, shape1 = 1, dtype = uint8, item = (\<lambda>i j. 255)\<rparr> = 0
   \<and> candidate ref255 (ReadAsArray_all tile_zero) 3 3 = Inr True
   \<and> calc_shift_skip ref255 ref10_gt (ReadAsArray_all tile_zero) tile4_gt 0 0 0 0
       = Inr (Some (0, 0))"
  unfolding sum_below_sentinel_list
  by (simp add: run_defs candidate_def ref10_def ref255_def ref10_gt_def tile_cancel_def
        tile_zero_def tile4_gt_def upt_rec)

text \<open>
  C3, as the code has it. The sum that decides a candidate is taken over exactly the
  pixels of the trimmed output whose value is below 255, and what is added is the item
  of \<open>outa - 1 - refouta\<close> in the arithmetic of the arrays' dtypes. For two byte arrays
  each item is (output - 1 - reference) modulo 256 and the sum is taken modulo
  \<open>2 ^ 64\<close>; below \<open>2 ^ 56\<close> pixels the sum is zero exactly when every pixel below 255 is
  the reference plus 1 modulo 256. For a byte array and an \<open>int16\<close> reference the sum is
  the sum of the integers (output - 1) - reference, when the output pixels below 255
  are at least 1, the differences are in the range of \<open>int16\<close> and there are fewer than
  \<open>2 ^ 47\<close> pixels. The loop takes the candidate whose window was read exactly when the
  sum is zero, and goes on to the next one otherwise. Two reference windows of one
  dtype that agree wherever the output is below 255 give the same sum, so the reference
  under a no-data pixel has no effect.
\<close>

theorem diffsum_sentinel:
  "(dtype outa = uint8 \<and> dtype refouta = uint8
      \<longrightarrow> diffsum outa refouta =
           (\<Sum>(i, j) \<in> {(i, j). i < shape0 outa \<and> j < shape1 outa \<and> item outa i j < 255}.
              (item outa i j - 1 - item refouta i j) mod 256) mod 2 ^ 64)
   \<and> (dtype outa = uint8 \<and> dtype refouta = uint8
        \<and> int (shape0 outa) * int (shape1 outa) < 2 ^ 56
      \<longrightarrow> (diffsum outa refouta = 0 \<longleftrightarrow>
            (\<forall>i j. i < shape0 outa \<and> j < shape1 outa \<and> item outa i j < 255
               \<longrightarrow> (item outa i j - 1 - item refouta i j) mod 256 = 0)))
   \<and> (dtype outa = uint8 \<and> dtype refouta = int16
        \<and> int (shape0 outa) * int (shape1 outa) < 2 ^ 47
        \<and> (\<forall>i j. i < shape0 outa \<and> j < shape1 outa \<and> item outa i j < 255
              \<longrightarrow> 1 \<le> item outa i j
                \<and> - 32768 \<le> item outa i j - 1 - item refouta i j
                \<and> item outa i j - 1 - item refouta i j \<le> 32767)
      \<longrightarrow> diffsum outa refouta =
           (\<Sum>(i, j) \<in> {(i, j). i < shape0 outa \<and> j < shape1 outa \<and> item outa i j < 255}.
              item outa i j - 1 - item refouta i j))
   \<and> (ReadAsArray refband (c0 + int coff) (r0 + int roff) (shape1 outa) (shape0 outa) = Inr refouta
        \<longrightarrow> test_offsets refband refgt outa outnwxy (c0, r0) ((coff, roff) # rest) =
          (if diffsum outa refouta = 0
           then Inr (Some (fst (calc_xy refgt (of_int (c0 + int coff)) (of_int (r0 + int roff)))
                             - fst outnwxy,
                           snd (calc_xy refgt (of_int (c0 + int coff)) (of_int (r0 + int roff)))
                             - snd outnwxy))
           else test_offsets refband refgt outa outnwxy (c0, r0) rest))
   \<and> (dtype refouta' = dtype refouta
        \<and> (\<forall>i j. i < shape0 outa \<and> j < shape1 outa \<and> item outa i j < 255
                \<longrightarrow> item refouta i j = item refouta' i j)
        \<longrightarrow> diffsum outa refouta = diffsum outa refouta')"
proof (intro conjI impI)
  assume "dtype outa = uint8 \<and> dtype refouta = uint8"
  then show "diffsum outa refouta =
           (\<Sum>(i, j) \<in> {(i, j). i < shape0 outa \<and> j < shape1 outa \<and> item outa i j < 255}.
              (item outa i j - 1 - item refouta i j) mod 256) mod 2 ^ 64"
    by (intro diffsum_bytes) simp_all
next
  assume a: "dtype outa = uint8 \<and> dtype refouta = uint8
        \<and> int (shape0 outa) * int (shape1 outa) < 2 ^ 56"
  then have "diffsum outa refouta = 0 \<longleftrightarrow>
     (\<forall>i<shape0 outa. \<forall>j<shape1 outa. item outa i j < 255
        \<longrightarrow> (item outa i j - 1 - item refouta i j) mod 256 = 0)"
    by (intro diffsum_uint8) simp_all
  then show "diffsum outa refouta = 0 \<longleftrightarrow>
            (\<forall>i j. i < shape0 outa \<and> j < shape1 outa \<and> item outa i j < 255
               \<longrightarrow> (item outa i j - 1 - item refouta i j) mod 256 = 0)"
    by auto
next
  assume "dtype outa = uint8 \<and> dtype refouta = int16
        \<and> int (shape0 outa) * int (shape1 outa) < 2 ^ 47
        \<and> (\<forall>i j. i < shape0 outa \<and> j < shape1 outa \<and> item outa i j < 255
              \<longrightarrow> 1 \<le> item outa i j
                \<and> - 32768 \<le> item outa i j - 1 - item refouta i j
                \<and> item outa i j - 1 - item refouta i j \<le> 32767)"
  then show "diffsum outa refouta =
           (\<Sum>(i, j) \<in> {(i, j). i < shape0 outa \<and> j < shape1 outa \<and> item outa i j < 255}.
              item outa i j - 1 - item refouta i j)"
    by (intro diffsum_uint8_int16) simp_all
next
  assume "ReadAsArray refband (c0 + int coff) (r0 + int roff) (shape1 outa) (shape0 outa)
            = Inr refouta"
  then show "test_offsets refband refgt outa outnwxy (c0, r0) ((coff, roff) # rest) =
          (if diffsum outa refouta = 0
           then Inr (Some (fst (calc_xy refgt (of_int (c0 + int coff)) (of_int (r0 + int roff)))
                             - fst outnwxy,
                           snd (calc_xy refgt (of_int (c0 + int coff)) (of_int (r0 + int roff)))
                             - snd outnwxy))
           else test_offsets refband refgt outa outnwxy (c0, r0) rest)"
    by (simp add: Let_def)
next
  assume "dtype refouta' = dtype refouta
        \<and> (\<forall>i j. i < shape0 outa \<and> j < shape1 outa \<and> item outa i j < 255
                \<longrightarrow> item refouta i j = item refouta' i j)"
  then show "diffsum outa refouta = diffsum outa refouta'"
    by (intro diffsum_cong) simp_all
qed

text \<open>
  The byte tile with a no-data pixel in its corner matches the byte window of 5s, and
  matches it still when the reference under the no-data pixel is 77. The byte tile
  (7, 5) has the sum 256 on the byte window of 5s, and on the \<open>int16\<close> window of 5s the
  sum of the integers 1 and -1.
\<close>

theorem diffsum_sentinel_witness:
  "ReadAsArray ref10 (3 + int 0) (3 + int 0) (shape1 (ReadAsArray_all tile_nodata))
       (shape0 (ReadAsArray_all tile_nodata))
     = Inr \<lparr>shape0 = 2, shape1 = 2, dtype = uint8, item = (\<lambda>i j. 5)\<rparr>
   \<and> item (ReadAsArray_all tile_nodata) 0 0 = 255
   \<and> item \<lparr>shape0 = 2, shape1 = 2, dtype = uint8, item = (\<lambda>i j. 5)\<rparr> 0 0
        \<noteq> item \<lparr>shape0 = 2, shape1 = 2, dtype = uint8,
                 item = (\<lambda>i j. if i = 0 \<and> j = 0 then 77 else 5)\<rparr> 0 0
   \<and> diffsum (ReadAsArray_all tile_nodata)
        \<lparr>shape0 = 2, shape1 = 2, dtype = uint8, item = (\<lambda>i j. 5)\<rparr> = 0
   \<and> diffsum (ReadAsArray_all tile_nodata)
        \<lparr>shape0 = 2, shape1 = 2, dtype = uint8,
          item = (\<lambda>i j. if i = 0 \<and> j = 0 then 77 else 5)\<rparr> = 0
   \<and> test_offsets ref10 ref10_gt (ReadAsArray_all tile_nodata) (1003, 1997) (3, 3) [(0, 0)]
       = Inr (Some (0, 0))
   \<and> diffsum (ReadAsArray_all tile_cancel)
        \<lparr>shape0 = 1, shape1 = 2, dtype = uint8, item = (\<lambda>i j. 5)\<rparr> = 256
   \<and> diffsum (ReadAsArray_all tile_cancel)
        \<lparr>shape0 = 1, shape1 = 2, dtype = int16, item = (\<lambda>i j. 5)\<rparr> = 0"
proof -
  let ?outa = "ReadAsArray_all tile_nodata"
  let ?w = "\<lparr>shape0 = 2, shape1 = 2, dtype = uint8, item = (\<lambda>i j. 5::int)\<rparr>"
  let ?w' = "\<lparr>shape0 = 2, shape1 = 2, dtype = uint8,
              item = (\<lambda>i j. if i = 0 \<and> j = 0 then 77 else 5::int)\<rparr>"
  let ?c = "ReadAsArray_all tile_cancel"
  let ?b = "\<lparr>shape0 = 1, shape1 = 2, dtype = uint8, item = (\<lambda>i j. 5::int)\<rparr>"
  let ?v = "\<lparr>shape0 = 1, shape1 = 2, dtype = int16, item = (\<lambda>i j. 5::int)\<rparr>"
  have r: "ReadAsArray ref10 (3 + int 0) (3 + int 0) (shape1 ?outa) (shape0 ?outa) = Inr ?w"
    by (simp add: ReadAsArray_def ReadAsArray_all_def ref10_def tile_nodata_def)
  have nd: "item ?outa 0 0 = 255" and ne: "item ?w 0 0 \<noteq> item ?w' 0 0"
    by (simp_all add: ReadAsArray_all_def tile_nodata_def)
  note t = diffsum_sentinel [where outa = ?outa and refouta = ?w and refband = ref10
      and ?c0.0 = 3 and coff = 0 and ?r0.0 = 3 and roff = 0 and refgt = ref10_gt
      and outnwxy = "(1003, 1997)" and rest = "[]" and refouta' = ?w']
  have h2: "dtype ?outa = uint8 \<and> dtype ?w = uint8
        \<and> int (shape0 ?outa) * int (shape1 ?outa) < 2 ^ 56"
    by (simp add: ReadAsArray_all_def tile_nodata_def)
  have m: "\<forall>i j. i < shape0 ?outa \<and> j < shape1 ?outa \<and> item ?outa i j < 255
               \<longrightarrow> (item ?outa i j - 1 - item ?w i j) mod 256 = 0"
    by (simp add: ReadAsArray_all_def tile_nodata_def)
  have z: "diffsum ?outa ?w = 0"
    using t [THEN conjunct2, THEN conjunct1, THEN mp, OF h2] m by (rule iffD2)
  have a: "dtype ?w' = dtype ?w
     \<and> (\<forall>i j. i < shape0 ?outa \<and> j < shape1 ?outa \<and> item ?outa i j < 255
        \<longrightarrow> item ?w i j = item ?w' i j)"
    by (simp add: ReadAsArray_all_def tile_nodata_def)
  have eq: "diffsum ?outa ?w = diffsum ?outa ?w'"
    using t [THEN conjunct2, THEN conjunct2, THEN conjunct2, THEN conjunct2] a by (rule mp)
  have w0: "diffsum ?outa ?w' = 0"
    using eq z by simp
  have tst: "test_offsets ref10 ref10_gt ?outa (1003, 1997) (3, 3) ((0, 0) # []) = Inr (Some (0, 0))"
    unfolding t [THEN conjunct2, THEN conjunct2, THEN conjunct2, THEN conjunct1, THEN mp, OF r] z
    by (simp add: calc_xy_def ref10_gt_def)
  note u = diffsum_sentinel [where outa = ?c and refouta = ?b]
  have h1: "dtype ?c = uint8 \<and> dtype ?b = uint8"
    by (simp add: ReadAsArray_all_def tile_cancel_def)
  have s1: "(\<Sum>(i, j) \<in> {(i, j). i < shape0 ?c \<and> j < shape1 ?c \<and> item ?c i j < 255}.
              (item ?c i j - 1 - item ?b i j) mod 256) = 256"
    unfolding sum_below_sentinel_list
    by (simp add: ReadAsArray_all_def tile_cancel_def upt_rec)
  have b256: "diffsum ?c ?b = 256"
    unfolding u [THEN conjunct1, THEN mp, OF h1] s1 by simp
  note v = diffsum_sentinel [where outa = ?c and refouta = ?v]
  have h3: "dtype ?c = uint8 \<and> dtype ?v = int16
        \<and> int (shape0 ?c) * int (shape1 ?c) < 2 ^ 47
        \<and> (\<forall>i j. i < shape0 ?c \<and> j < shape1 ?c \<and> item ?c i j < 255
              \<longrightarrow> 1 \<le> item ?c i j
                \<and> - 32768 \<le> item ?c i j - 1 - item ?v i j
                \<and> item ?c i j - 1 - item ?v i j \<le> 32767)"
    by (simp add: ReadAsArray_all_def tile_cancel_def)
  have s3: "(\<Sum>(i, j) \<in> {(i, j). i < shape0 ?c \<and> j < shape1 ?c \<and> item ?c i j < 255}.
              item ?c i j - 1 - item ?v i j) = 0"
    unfolding sum_below_sentinel_list
    by (simp add: ReadAsArray_all_def tile_cancel_def upt_rec)
  have v0: "diffsum ?c ?v = 0"
    unfolding v [THEN conjunct2, THEN conjunct2, THEN conjunct1, THEN mp, OF h3] s3 by simp
  show ?thesis
    by (intro conjI) (fact r, fact nd, fact ne, fact z, fact w0, fact tst, fact b256, fact v0)
qed

subsection \<open>The round trip of the coordinate transform\<close>

text \<open>
  C4. For a transform with \<open>c1*c5 - c2*c4 \<noteq> 0\<close> and every column and row, the inverse
  map applied to the forward map gives the column and row back, as finite numbers.
\<close>

theorem calc_colrow_calc_xy:
  assumes "gt1 gt * gt5 gt - gt2 gt * gt4 gt \<noteq> 0"
  shows "calc_colrow gt (fst (calc_xy gt col row)) (snd (calc_xy gt col row))
           = (Finite col, Finite row)"
proof -
  let ?d = "gt1 gt * gt5 gt - gt2 gt * gt4 gt"
  have d': "gt2 gt * gt4 gt - gt1 gt * gt5 gt \<noteq> 0"
    using assms by simp
  have c: "((gt0 gt + col * gt1 gt + row * gt2 gt) * gt5 gt
             - (gt3 gt + col * gt4 gt + row * gt5 gt) * gt2 gt
             - gt0 gt * gt5 gt + gt2 gt * gt3 gt) = col * ?d"
    by (simp add: algebra_simps)
  have r: "((gt0 gt + col * gt1 gt + row * gt2 gt) * gt4 gt
             - (gt3 gt + col * gt4 gt + row * gt5 gt) * gt1 gt
             - gt0 gt * gt4 gt + gt1 gt * gt3 gt) = row * (gt2 gt * gt4 gt - gt1 gt * gt5 gt)"
    by (simp add: algebra_simps)
  show ?thesis
    unfolding calc_colrow_def calc_xy_def Let_def fst_conv snd_conv c r np_divide_def
    using assms d' by simp
qed

theorem calc_colrow_calc_xy_witness:
  "gt1 ref10_gt
       * gt5 ref10_gt
     - gt2 ref10_gt
       * gt4 ref10_gt \<noteq> 0
   \<and> calc_colrow ref10_gt 1003 1997
       = (Finite 3, Finite 3)"
  using calc_colrow_calc_xy [of "ref10_gt" 3 3]
  by (simp add: calc_xy_def ref10_gt_def)

subsection \<open>Degenerate transforms\<close>

lemma calc_colrow_degenerate:
  assumes "gt1 gt * gt5 gt - gt2 gt * gt4 gt = 0"
  shows "fst (calc_colrow gt x y) = Infinity \<or> fst (calc_colrow gt x y) = NaN"
    and "snd (calc_colrow gt x y) = Infinity \<or> snd (calc_colrow gt x y) = NaN"
  using assms by (simp_all add: calc_colrow_def np_divide_def Let_def)

lemma calc_shift_skip_degenerate:
  assumes "gt1 refgt * gt5 refgt - gt2 refgt * gt4 refgt = 0"
  shows "calc_shift_skip refband refgt outa outgt skipw skipn skipe skips = Inl OverflowError
       \<or> calc_shift_skip refband refgt outa outgt skipw skipn skipe skips = Inl ValueError"
  using calc_colrow_degenerate(1) [OF assms,
      of "fst (calc_xy outgt (of_int skipw) (of_int skipn))"
         "snd (calc_xy outgt (of_int skipw) (of_int skipn))"]
  by (auto simp: calc_shift_skip_def Let_def int_floor_def)

text \<open>
  Nothing in \<open>calc_colrow\<close> tests the determinant. For the transform
  (1000, 1, 2, 2000, 2, 4) it returns a pair of infinities as the coordinates, and the
  exception that ends \<open>calc_shift\<close> is the \<open>OverflowError\<close> of the conversion to
  an integer.
\<close>

theorem degenerate_counterexample:
  "gt1 degenerate_gt * gt5 degenerate_gt - gt2 degenerate_gt * gt4 degenerate_gt = 0
   \<and> calc_colrow degenerate_gt 1003 1997 = (Infinity, Infinity)
   \<and> calc_shift ref10 degenerate_gt tile4 tile4_gt = Inl OverflowError"
  by (simp add: run_defs degenerate_gt_def tile4_gt_def tile4_def)

text \<open>
  C5, as the code has it. When \<open>c1*c5 - c2*c4 = 0\<close> the inverse map makes no check and
  returns coordinates that are infinite or NaN; \<open>calc_shift_skip\<close> and \<open>calc_shift\<close>
  then end with the \<open>OverflowError\<close> or \<open>ValueError\<close> of the conversion to an integer,
  for every margin: they return neither a shift nor None.
\<close>

theorem degenerate_transform:
  assumes "gt1 refgt * gt5 refgt - gt2 refgt * gt4 refgt = 0"
  shows "(fst (calc_colrow refgt x y) = Infinity \<or> fst (calc_colrow refgt x y) = NaN)
   \<and> (snd (calc_colrow refgt x y) = Infinity \<or> snd (calc_colrow refgt x y) = NaN)
   \<and> (calc_shift_skip refband refgt outa outgt skipw skipn skipe skips = Inl OverflowError
       \<or> calc_shift_skip refband refgt outa outgt skipw skipn skipe skips = Inl ValueError)
   \<and> (calc_shift refband refgt outband outgt = Inl OverflowError
       \<or> calc_shift refband refgt outband outgt = Inl ValueError)"
proof (intro conjI)
  show "fst (calc_colrow refgt x y) = Infinity \<or> fst (calc_colrow refgt x y) = NaN"
    by (rule calc_colrow_degenerate(1) [OF assms])
  show "snd (calc_colrow refgt x y) = Infinity \<or> snd (calc_colrow refgt x y) = NaN"
    by (rule calc_colrow_degenerate(2) [OF assms])
  show "calc_shift_skip refband refgt outa outgt skipw skipn skipe skips = Inl OverflowError
       \<or> calc_shift_skip refband refgt outa outgt skipw skipn skipe skips = Inl ValueError"
    by (rule calc_shift_skip_degenerate [OF assms])
  show "calc_shift refband refgt outband outgt = Inl OverflowError
       \<or> calc_shift refband refgt outband outgt = Inl ValueError"
    using calc_shift_skip_degenerate [OF assms, of refband "ReadAsArray_all outband" outgt 0 0 0 0]
    by (auto simp: calc_shift_def Let_def returning_def)
qed

theorem degenerate_transform_witness:
  "gt1 degenerate_gt * gt5 degenerate_gt - gt2 degenerate_gt * gt4 degenerate_gt = 0
   \<and> calc_shift_skip ref10 degenerate_gt (ReadAsArray_all tile4) tile4_gt 0 0 0 0 \<noteq> Inr None
   \<and> (calc_shift ref10 degenerate_gt tile4 tile4_gt = Inl OverflowError
       \<or> calc_shift ref10 degenerate_gt tile4 tile4_gt = Inl ValueError)"
proof -
  have d: "gt1 degenerate_gt * gt5 degenerate_gt - gt2 degenerate_gt * gt4 degenerate_gt = 0"
    by (simp add: degenerate_gt_def)
  note t = degenerate_transform [OF d, of 0 0 ref10 "ReadAsArray_all tile4" tile4_gt 0 0 0 0 tile4]
  from t have "calc_shift_skip ref10 degenerate_gt (ReadAsArray_all tile4) tile4_gt 0 0 0 0
      \<noteq> Inr None"
    by auto
  with d t show ?thesis by blast
qed

subsection \<open>Windows outside the reference\<close>

lemma test_offsets_error:
  assumes "list_all (\<lambda>(coff', roff').
             candidate refband outa (c0 + int coff') (r0 + int roff') = Inr False) pre"
    and "ReadAsArray refband (c0 + int coff) (r0 + int roff) (shape1 outa) (shape0 outa) = Inl e"
  shows "test_offsets refband refgt outa outnwxy (c0, r0) (pre @ (coff, roff) # rest) = Inl e"
  using assms
proof (induction pre)
  case Nil
  then show ?case by (simp add: Let_def)
next
  case (Cons p pre)
  obtain a b where p: "p = (a, b)" by (cases p)
  from Cons show ?case
    by (simp add: p test_offsets_Cons del: test_offsets.simps)
qed

lemma first_success_error:
  assumes "list_all (\<lambda>es'. t es' = Inr None) before" and "t es = Inl e"
  shows "first_success t (before @ es # after) = Inl e"
  using assms by (induction before) simp_all

text \<open>
  The tile half a pixel west of the reference: the first candidate, column -1, cannot
  be read; the candidate (0, 0) would match; the test and the search end with the
  read's error.
\<close>

theorem out_of_bounds_counterexample:
  "candidate ref10 (ReadAsArray_all tile4) (- 1) 0 = Inl OutOfBoundsError
   \<and> candidate ref10 (ReadAsArray_all tile4) 0 0 = Inr True
   \<and> calc_shift_skip ref10 ref10_gt (ReadAsArray_all tile4) tile4_gt_west_edge 0 0 0 0
       = Inl OutOfBoundsError
   \<and> calc_shift ref10 ref10_gt tile4 tile4_gt_west_edge = Inl OutOfBoundsError"
  by (simp add: run_defs candidate_def ref10_def ref10_gt_def tile4_def tile4_gt_west_edge_def
        upt_rec)

text \<open>
  C6, as the code has it. A window that cannot be read is not a failed candidate: when
  the candidates before it were read and found inconsistent, the loop over the
  candidates ends with the read's error and tests no later candidate; and \<open>calc_shift\<close>
  ends with the error of the first trial that raises, the zero margin or, after the
  trials before it found nothing, a subset of the edges.
\<close>

theorem out_of_bounds_propagates:
  "(list_all (\<lambda>(coff', roff').
        candidate refband outa (c0 + int coff') (r0 + int roff') = Inr False) pre
      \<and> ReadAsArray refband (c0 + int coff) (r0 + int roff) (shape1 outa) (shape0 outa) = Inl e
     \<longrightarrow> test_offsets refband refgt outa outnwxy (c0, r0) (pre @ (coff, roff) # rest) = Inl e)
   \<and> (calc_shift_skip refband refgt (ReadAsArray_all outband) outgt 0 0 0 0 = Inl e
     \<longrightarrow> calc_shift refband refgt outband outgt = Inl e)
   \<and> (calc_shift_skip refband refgt (ReadAsArray_all outband) outgt 0 0 0 0 = Inr None
      \<and> edge_subsets = before @ es # after
      \<and> list_all (\<lambda>es'. tryShift refband refgt (ReadAsArray_all outband) outgt
            (XSize outband div 3) (YSize outband div 3) es' = Inr None) before
      \<and> tryShift refband refgt (ReadAsArray_all outband) outgt
            (XSize outband div 3) (YSize outband div 3) es = Inl e
     \<longrightarrow> calc_shift refband refgt outband outgt = Inl e)"
proof (intro conjI impI)
  assume "list_all (\<lambda>(coff', roff').
        candidate refband outa (c0 + int coff') (r0 + int roff') = Inr False) pre
      \<and> ReadAsArray refband (c0 + int coff) (r0 + int roff) (shape1 outa) (shape0 outa) = Inl e"
  then show "test_offsets refband refgt outa outnwxy (c0, r0) (pre @ (coff, roff) # rest) = Inl e"
    by (intro test_offsets_error) simp_all
next
  assume "calc_shift_skip refband refgt (ReadAsArray_all outband) outgt 0 0 0 0 = Inl e"
  then show "calc_shift refband refgt outband outgt = Inl e"
    by (simp add: calc_shift_def Let_def returning_def)
next
  assume a: "calc_shift_skip refband refgt (ReadAsArray_all outband) outgt 0 0 0 0 = Inr None
      \<and> edge_subsets = before @ es # after
      \<and> list_all (\<lambda>es'. tryShift refband refgt (ReadAsArray_all outband) outgt
            (XSize outband div 3) (YSize outband div 3) es' = Inr None) before
      \<and> tryShift refband refgt (ReadAsArray_all outband) outgt
            (XSize outband div 3) (YSize outband div 3) es = Inl e"
  have s: "shape1 (ReadAsArray_all outband) = XSize outband"
    "shape0 (ReadAsArray_all outband) = YSize outband"
    by (simp_all add: ReadAsArray_all_def)
  have "findShift refband refgt outband outgt =
      first_success (tryShift refband refgt (ReadAsArray_all outband) outgt
            (XSize outband div 3) (YSize outband div 3)) (before @ es # after)"
    using a by (simp add: findShift_def Let_def tryShift_def s)
  also have "\<dots> = Inl e"
    using a by (intro first_success_error) simp_all
  finally show "calc_shift refband refgt outband outgt = Inl e"
    by (simp add: calc_shift_findShift)
qed

text \<open>
  The tile west of the reference again, where the zero margin raises; and the coarse
  tile of 9s, where the zero margin finds nothing and the west margin raises.
\<close>

theorem out_of_bounds_propagates_witness:
  "ReadAsArray ref10 (- 1 + int 0) (0 + int 0) (shape1 (ReadAsArray_all tile4))
        (shape0 (ReadAsArray_all tile4)) = Inl OutOfBoundsError
   \<and> test_offsets ref10 ref10_gt (ReadAsArray_all tile4) (1000 - 1 / 2, 2000) (- 1, 0)
        ([] @ (0, 0) # [(0, 1), (1, 0), (1, 1)]) = Inl OutOfBoundsError
   \<and> calc_shift_skip ref10 ref10_gt (ReadAsArray_all tile4) tile4_gt_west_edge 0 0 0 0
        = Inl OutOfBoundsError
   \<and> calc_shift ref10 ref10_gt tile4 tile4_gt_west_edge = Inl OutOfBoundsError
   \<and> calc_shift_skip ref10 ref10_gt (ReadAsArray_all tile4_nines) tile4_gt_coarse 0 0 0 0
        = Inr None
   \<and> tryShift ref10 ref10_gt (ReadAsArray_all tile4_nines) tile4_gt_coarse
        (XSize tile4_nines div 3) (YSize tile4_nines div 3) [WEST] = Inl OutOfBoundsError
   \<and> calc_shift ref10 ref10_gt tile4_nines tile4_gt_coarse = Inl OutOfBoundsError"
proof -
  let ?a = "ReadAsArray_all tile4"
  let ?n = "ReadAsArray_all tile4_nines"
  have p: "list_all (\<lambda>(coff', roff').
      candidate ref10 ?a (- 1 + int coff') (0 + int roff') = Inr False) []"
    by simp
  have r: "ReadAsArray ref10 (- 1 + int 0) (0 + int 0) (shape1 ?a) (shape0 ?a)
      = Inl OutOfBoundsError"
    by (simp add: ReadAsArray_def)
  have z: "calc_shift_skip ref10 ref10_gt ?a tile4_gt_west_edge 0 0 0 0 = Inl OutOfBoundsError"
    by (simp add: run_defs ref10_def ref10_gt_def tile4_def tile4_gt_west_edge_def upt_rec)
  note t = out_of_bounds_propagates [of ref10 ?a "- 1" 0 "[]" 0 0 OutOfBoundsError ref10_gt
      "(1000 - 1 / 2, 2000)" "[(0, 1), (1, 0), (1, 1)]" tile4 tile4_gt_west_edge]
  have 1: "test_offsets ref10 ref10_gt ?a (1000 - 1 / 2, 2000) (- 1, 0)
        ([] @ (0, 0) # [(0, 1), (1, 0), (1, 1)]) = Inl OutOfBoundsError"
    using t [THEN conjunct1] p r by blast
  have 2: "calc_shift ref10 ref10_gt tile4 tile4_gt_west_edge = Inl OutOfBoundsError"
    using t [THEN conjunct2, THEN conjunct1] z by (rule mp)
  have n0: "calc_shift_skip ref10 ref10_gt ?n tile4_gt_coarse 0 0 0 0 = Inr None"
    by (simp add: run_defs ref10_def ref10_gt_def tile4_nines_def tile4_gt_coarse_def upt_rec)
  have nw: "tryShift ref10 ref10_gt ?n tile4_gt_coarse
        (XSize tile4_nines div 3) (YSize tile4_nines div 3) [WEST] = Inl OutOfBoundsError"
    by (simp add: tryShift_def run_defs ref10_def ref10_gt_def tile4_nines_def
          tile4_gt_coarse_def upt_rec)
  have es: "edge_subsets = [] @ [WEST] # tl edge_subsets"
    by (simp add: edge_subsets_eq)
  have b: "list_all (\<lambda>es'. tryShift ref10 ref10_gt ?n tile4_gt_coarse
        (XSize tile4_nines div 3) (YSize tile4_nines div 3) es' = Inr None) []"
    by simp
  note u = out_of_bounds_propagates [where outband = tile4_nines and refband = ref10
      and refgt = ref10_gt and outgt = tile4_gt_coarse and before = "[]" and es = "[WEST]"
      and after = "tl edge_subsets" and e = OutOfBoundsError]
  have 3: "calc_shift ref10 ref10_gt tile4_nines tile4_gt_coarse = Inl OutOfBoundsError"
    using u [THEN conjunct2, THEN conjunct2] n0 es b nw by blast
  from r 1 z 2 n0 nw 3 show ?thesis by blast
qed

subsection \<open>Writing the shifted tile\<close>

lemma shift_found:
  assumes "fs outfile = Some outrast"
    and "calc_shift refband refgt (RasterBand outrast) (GeoTransform outrast)
           = Inr (Some (dx, dy), overlap)"
  shows "shift refband refgt outfile newfile fs =
     (Inr (Shift_and_overlap (dx, dy) overlap),
      fs(newfile \<mapsto>
        \<lparr>GeoTransform = (GeoTransform outrast)
            \<lparr>gt0 := gt0 (GeoTransform outrast) + dx, gt3 := gt3 (GeoTransform outrast) + dy\<rparr>,
         RasterBand = \<lparr>XSize = XSize (RasterBand outrast), YSize = YSize (RasterBand outrast),
            DataType = GDT_Byte, sample = (\<lambda>i j. if i < YSize (RasterBand outrast) \<and> j < XSize (RasterBand outrast)
                             then sample (RasterBand outrast) i j else 0)\<rparr>,
         NoDataValue = NoDataValue outrast,
         Projection = Projection outrast\<rparr>))"
  using assms
  by (simp add: shift_def Let_def Create_def WriteArray_def ReadAsArray_all_def cong: if_cong)

lemma shift_not_found:
  assumes "fs outfile = Some outrast"
    and "calc_shift refband refgt (RasterBand outrast) (GeoTransform outrast)
           = Inr (None, overlap)"
  shows "shift refband refgt outfile newfile fs = (Inr Failed_to_shift, fs)"
  using assms by (simp add: shift_def Let_def)

text \<open>
  C7. When the tile can be opened and \<open>calc_shift\<close> finds the shift (dx, dy), the files
  afterwards are the files before with one raster stored under the new name; its
  transform is the tile's with c0 + dx and c3 + dy and the other four coefficients as
  they are; its size, its samples, its no-data value and its projection are the
  tile's. When no shift is found, or \<open>calc_shift\<close> raises, the files are unchanged.
\<close>

theorem shift_writes_one_file:
  assumes "fs outfile = Some outrast"
  shows "(\<forall>dx dy overlap.
        calc_shift refband refgt (RasterBand outrast) (GeoTransform outrast)
          = Inr (Some (dx, dy), overlap)
        \<longrightarrow> (\<exists>newrast.
              shift refband refgt outfile newfile fs
                = (Inr (Shift_and_overlap (dx, dy) overlap), fs(newfile \<mapsto> newrast))
            \<and> gt0 (GeoTransform newrast) = gt0 (GeoTransform outrast) + dx
            \<and> gt3 (GeoTransform newrast) = gt3 (GeoTransform outrast) + dy
            \<and> gt1 (GeoTransform newrast) = gt1 (GeoTransform outrast)
            \<and> gt2 (GeoTransform newrast) = gt2 (GeoTransform outrast)
            \<and> gt4 (GeoTransform newrast) = gt4 (GeoTransform outrast)
            \<and> gt5 (GeoTransform newrast) = gt5 (GeoTransform outrast)
            \<and> XSize (RasterBand newrast) = XSize (RasterBand outrast)
            \<and> YSize (RasterBand newrast) = YSize (RasterBand outrast)
            \<and> (\<forall>i j. i < YSize (RasterBand outrast) \<and> j < XSize (RasterBand outrast)
                  \<longrightarrow> sample (RasterBand newrast) i j = sample (RasterBand outrast) i j)
            \<and> NoDataValue newrast = NoDataValue outrast
            \<and> Projection newrast = Projection outrast))
   \<and> (\<forall>overlap.
        calc_shift refband refgt (RasterBand outrast) (GeoTransform outrast) = Inr (None, overlap)
        \<longrightarrow> shift refband refgt outfile newfile fs = (Inr Failed_to_shift, fs))
   \<and> (\<forall>e.
        calc_shift refband refgt (RasterBand outrast) (GeoTransform outrast) = Inl e
        \<longrightarrow> shift refband refgt outfile newfile fs = (Inl e, fs))"
proof (intro conjI allI impI)
  fix dx dy overlap
  assume "calc_shift refband refgt (RasterBand outrast) (GeoTransform outrast)
          = Inr (Some (dx, dy), overlap)"
  with assms have "shift refband refgt outfile newfile fs =
     (Inr (Shift_and_overlap (dx, dy) overlap),
      fs(newfile \<mapsto>
        \<lparr>GeoTransform = (GeoTransform outrast)
            \<lparr>gt0 := gt0 (GeoTransform outrast) + dx, gt3 := gt3 (GeoTransform outrast) + dy\<rparr>,
         RasterBand = \<lparr>XSize = XSize (RasterBand outrast), YSize = YSize (RasterBand outrast),
            DataType = GDT_Byte, sample = (\<lambda>i j. if i < YSize (RasterBand outrast) \<and> j < XSize (RasterBand outrast)
                             then sample (RasterBand outrast) i j else 0)\<rparr>,
         NoDataValue = NoDataValue outrast,
         Projection = Projection outrast\<rparr>))"
    by (rule shift_found)
  then show "\<exists>newrast.
              shift refband refgt outfile newfile fs
                = (Inr (Shift_and_overlap (dx, dy) overlap), fs(newfile \<mapsto> newrast))
            \<and> gt0 (GeoTransform newrast) = gt0 (GeoTransform outrast) + dx
            \<and> gt3 (GeoTransform newrast) = gt3 (GeoTransform outrast) + dy
            \<and> gt1 (GeoTransform newrast) = gt1 (GeoTransform outrast)
            \<and> gt2 (GeoTransform newrast) = gt2 (GeoTransform outrast)
            \<and> gt4 (GeoTransform newrast) = gt4 (GeoTransform outrast)
            \<and> gt5 (GeoTransform newrast) = gt5 (GeoTransform outrast)
            \<and> XSize (RasterBand newrast) = XSize (RasterBand outrast)
            \<and> YSize (RasterBand newrast) = YSize (RasterBand outrast)
            \<and> (\<forall>i j. i < YSize (RasterBand outrast) \<and> j < XSize (RasterBand outrast)
                  \<longrightarrow> sample (RasterBand newrast) i j = sample (RasterBand outrast) i j)
            \<and> NoDataValue newrast = NoDataValue outrast
            \<and> Projection newrast = Projection outrast"
    by (intro exI [of _ "\<lparr>GeoTransform = (GeoTransform outrast)
            \<lparr>gt0 := gt0 (GeoTransform outrast) + dx, gt3 := gt3 (GeoTransform outrast) + dy\<rparr>,
         RasterBand = \<lparr>XSize = XSize (RasterBand outrast), YSize = YSize (RasterBand outrast),
            DataType = GDT_Byte, sample = (\<lambda>i j. if i < YSize (RasterBand outrast) \<and> j < XSize (RasterBand outrast)
                             then sample (RasterBand outrast) i j else 0)\<rparr>,
         NoDataValue = NoDataValue outrast,
         Projection = Projection outrast\<rparr>"]) simp
next
  fix overlap
  assume "calc_shift refband refgt (RasterBand outrast) (GeoTransform outrast)
      = Inr (None, overlap)"
  with assms show "shift refband refgt outfile newfile fs = (Inr Failed_to_shift, fs)"
    by (rule shift_not_found)
next
  fix e
  assume "calc_shift refband refgt (RasterBand outrast) (GeoTransform outrast) = Inl e"
  with assms show "shift refband refgt outfile newfile fs = (Inl e, fs)"
    by (simp add: shift_def Let_def)
qed

lemma tile4_found:
  "calc_shift ref10 ref10_gt tile4 tile4_gt = Inr (Some (0, 0), Some 0)"
  by (simp add: run_defs ref10_def ref10_gt_def tile4_def tile4_gt_def upt_rec)

lemma tile1_not_found:
  "calc_shift ref10 ref10_gt tile1 tile4_gt = Inr (None, None)"
  by (simp add: run_defs ref10_def ref10_gt_def tile1_def tile4_gt_def upt_rec)

theorem shift_writes_one_file_witness:
  "tile_files tile4 ''tile.tif'' = Some (tile_raster tile4)
   \<and> calc_shift ref10 ref10_gt (RasterBand (tile_raster tile4)) (GeoTransform (tile_raster tile4))
       = Inr (Some (0, 0), Some 0)
   \<and> fst (shift ref10 ref10_gt ''tile.tif'' ''new.tif'' (tile_files tile4))
       = Inr (Shift_and_overlap (0, 0) (Some 0))
   \<and> snd (shift ref10 ref10_gt ''tile.tif'' ''new.tif'' (tile_files tile4)) ''tile.tif''
       = Some (tile_raster tile4)
   \<and> tile_files tile1 ''tile.tif'' = Some (tile_raster tile1)
   \<and> calc_shift ref10 ref10_gt (RasterBand (tile_raster tile1)) (GeoTransform (tile_raster tile1))
       = Inr (None, None)
   \<and> shift ref10 ref10_gt ''tile.tif'' ''new.tif'' (tile_files tile1)
       = (Inr Failed_to_shift, tile_files tile1)"
proof -
  have f4: "tile_files tile4 ''tile.tif'' = Some (tile_raster tile4)"
    and f1: "tile_files tile1 ''tile.tif'' = Some (tile_raster tile1)"
    by (simp_all add: tile_files_def)
  have c4: "calc_shift ref10 ref10_gt (RasterBand (tile_raster tile4))
       (GeoTransform (tile_raster tile4)) = Inr (Some (0, 0), Some 0)"
    by (simp add: tile_raster_def tile4_found)
  have c1: "calc_shift ref10 ref10_gt (RasterBand (tile_raster tile1))
       (GeoTransform (tile_raster tile1)) = Inr (None, None)"
    by (simp add: tile_raster_def tile1_not_found)
  note t4 = shift_writes_one_file [where fs = "tile_files tile4" and outfile = "''tile.tif''"
      and outrast = "tile_raster tile4" and refband = ref10 and refgt = ref10_gt
      and newfile = "''new.tif''", OF f4]
  note t1 = shift_writes_one_file [where fs = "tile_files tile1" and outfile = "''tile.tif''"
      and outrast = "tile_raster tile1" and refband = ref10 and refgt = ref10_gt
      and newfile = "''new.tif''", OF f1]
  from t4 [THEN conjunct1] c4
  obtain newrast where n: "shift ref10 ref10_gt ''tile.tif'' ''new.tif'' (tile_files tile4)
      = (Inr (Shift_and_overlap (0, 0) (Some 0)), (tile_files tile4)(''new.tif'' \<mapsto> newrast))"
    by blast
  have a: "fst (shift ref10 ref10_gt ''tile.tif'' ''new.tif'' (tile_files tile4))
       = Inr (Shift_and_overlap (0, 0) (Some 0))"
    by (simp add: n)
  have b: "snd (shift ref10 ref10_gt ''tile.tif'' ''new.tif'' (tile_files tile4)) ''tile.tif''
       = Some (tile_raster tile4)"
    by (simp add: n f4)
  have c: "shift ref10 ref10_gt ''tile.tif'' ''new.tif'' (tile_files tile1)
       = (Inr Failed_to_shift, tile_files tile1)"
    using t1 [THEN conjunct2, THEN conjunct1] c1 by blast
  from f4 c4 a b f1 c1 c show ?thesis by blast
qed

subsection \<open>The scenario of the specification\<close>

text \<open>
  C8. For the 10 by 10 reference of 5s with transform (1000, 1, 0, 2000, 0, -1) and the
  4 by 4 tile of 6s with transform (1003, 1, 0, 1997, 0, -1), \<open>calc_shift\<close> returns the
  shift (0, 0) with overlap 0.
\<close>

theorem calc_shift_scenario:
  "calc_shift ref10 ref10_gt tile4 tile4_gt = Inr (Some (0, 0), Some 0)"
  by (rule tile4_found)

subsection \<open>Differences that cancel\<close>

text \<open>
  The byte tile (7, 5) on the \<open>int16\<close> reference of 5s: the differences are computed in
  \<open>int16\<close> and are 1 and -1.
\<close>

lemma cancel_example:
  "ReadAsArray ref10_int16 3 3 (shape1 (ReadAsArray_all tile_cancel))
       (shape0 (ReadAsArray_all tile_cancel))
      = Inr \<lparr>shape0 = 1, shape1 = 2, dtype = int16, item = (\<lambda>i j. 5)\<rparr>
    \<and> 0 < shape0 (ReadAsArray_all tile_cancel) \<and> 0 < shape1 (ReadAsArray_all tile_cancel)
    \<and> item (ReadAsArray_all tile_cancel) 0 0 < 255
    \<and> 0 < diff_item (ReadAsArray_all tile_cancel)
            \<lparr>shape0 = 1, shape1 = 2, dtype = int16, item = (\<lambda>i j. 5)\<rparr> 0 0
    \<and> 0 < shape0 (ReadAsArray_all tile_cancel) \<and> 1 < shape1 (ReadAsArray_all tile_cancel)
    \<and> item (ReadAsArray_all tile_cancel) 0 1 < 255
    \<and> diff_item (ReadAsArray_all tile_cancel)
         \<lparr>shape0 = 1, shape1 = 2, dtype = int16, item = (\<lambda>i j. 5)\<rparr> 0 1 < 0
    \<and> item (ReadAsArray_all tile_cancel) 0 0
         \<noteq> item \<lparr>shape0 = 1, shape1 = 2, dtype = int16, item = (\<lambda>i j. 5)\<rparr> 0 0 + 1
    \<and> diffsum (ReadAsArray_all tile_cancel)
         \<lparr>shape0 = 1, shape1 = 2, dtype = int16, item = (\<lambda>i j. 5)\<rparr> = 0
    \<and> calc_shift_skip ref10_int16 ref10_gt (ReadAsArray_all tile_cancel) tile4_gt 0 0 0 0
        = Inr (Some (0, 0))"
  by (simp add: run_defs ref10_int16_def ref10_gt_def tile_cancel_def tile4_gt_def upt_rec)

text \<open>
  C9. There are a reference window and an output tile with a pixel below 255 whose
  difference (output - 1) - reference is positive and another whose difference is
  negative, so that the tile is not the reference plus 1, and yet the sum is zero and
  \<open>calc_shift_skip\<close> returns a shift: the two differences cancel.
\<close>

theorem diffsum_cancellation:
  "\<exists>refband refgt outa outgt c r refouta i j i' j' found.
      ReadAsArray refband c r (shape1 outa) (shape0 outa) = Inr refouta
    \<and> i < shape0 outa \<and> j < shape1 outa \<and> item outa i j < 255
    \<and> 0 < diff_item outa refouta i j
    \<and> i' < shape0 outa \<and> j' < shape1 outa \<and> item outa i' j' < 255
    \<and> diff_item outa refouta i' j' < 0
    \<and> item outa i j \<noteq> item refouta i j + 1
    \<and> diffsum outa refouta = 0
    \<and> calc_shift_skip refband refgt outa outgt 0 0 0 0 = Inr (Some found)"
  by (intro exI) (rule cancel_example)

subsection \<open>Tiles too small for a margin\<close>

lemma calc_shift_no_margin:
  assumes "XSize outband < 3" "YSize outband < 3"
  shows "calc_shift refband refgt outband outgt =
     (case calc_shift_skip refband refgt (ReadAsArray_all outband) outgt 0 0 0 0 of
        Inl e \<Rightarrow> Inl e
      | Inr None \<Rightarrow> Inr (None, None)
      | Inr (Some found) \<Rightarrow> Inr (Some found, Some 0))"
  using assms
  by (simp add: calc_shift_def Let_def ReadAsArray_all_def returning_def
        split: sum.splits option.splits)

text \<open>
  C10. For a tile with fewer than 3 columns and fewer than 3 rows both margins are 0,
  each of the 15 subset trials is the call of the zero-margin trial again, and
  \<open>calc_shift\<close> returns what the zero-margin trial found with overlap 0, or (None, None)
  when it found nothing (or the exception the trial raised): never another overlap.
\<close>

theorem calc_shift_small_tile:
  assumes "XSize outband < 3" and "YSize outband < 3"
  shows "int (shape1 (ReadAsArray_all outband) div 3) = 0
   \<and> int (shape0 (ReadAsArray_all outband) div 3) = 0
   \<and> (\<forall>es \<in> set edge_subsets.
         tryShift refband refgt (ReadAsArray_all outband) outgt
           (shape1 (ReadAsArray_all outband) div 3) (shape0 (ReadAsArray_all outband) div 3) es
         = calc_shift_skip refband refgt (ReadAsArray_all outband) outgt 0 0 0 0)
   \<and> calc_shift refband refgt outband outgt =
       (case calc_shift_skip refband refgt (ReadAsArray_all outband) outgt 0 0 0 0 of
          Inl e \<Rightarrow> Inl e
        | Inr None \<Rightarrow> Inr (None, None)
        | Inr (Some found) \<Rightarrow> Inr (Some found, Some 0))
   \<and> (\<forall>found overlap. calc_shift refband refgt outband outgt = Inr (found, Some overlap)
         \<longrightarrow> overlap = 0)"
proof (intro conjI)
  show w: "int (shape1 (ReadAsArray_all outband) div 3) = 0"
    using assms by (simp add: ReadAsArray_all_def)
  show n: "int (shape0 (ReadAsArray_all outband) div 3) = 0"
    using assms by (simp add: ReadAsArray_all_def)
  show "\<forall>es \<in> set edge_subsets.
         tryShift refband refgt (ReadAsArray_all outband) outgt
           (shape1 (ReadAsArray_all outband) div 3) (shape0 (ReadAsArray_all outband) div 3) es
         = calc_shift_skip refband refgt (ReadAsArray_all outband) outgt 0 0 0 0"
    by (simp add: tryShift_def w n)
  show "calc_shift refband refgt outband outgt =
       (case calc_shift_skip refband refgt (ReadAsArray_all outband) outgt 0 0 0 0 of
          Inl e \<Rightarrow> Inl e
        | Inr None \<Rightarrow> Inr (None, None)
        | Inr (Some found) \<Rightarrow> Inr (Some found, Some 0))"
    by (rule calc_shift_no_margin [OF assms])
  show "\<forall>found overlap. calc_shift refband refgt outband outgt = Inr (found, Some overlap)
         \<longrightarrow> overlap = 0"
    by (auto simp: calc_shift_no_margin [OF assms] split: sum.splits option.splits)
qed

text \<open>The tile of one pixel: no margin, no match.\<close>

lemma tile1_no_match:
  "calc_shift_skip ref10 ref10_gt (ReadAsArray_all tile1) tile4_gt 0 0 0 0 = Inr None"
  by (simp add: run_defs ref10_def ref10_gt_def tile1_def tile4_gt_def upt_rec)

theorem calc_shift_small_tile_witness:
  "XSize tile1 < 3 \<and> YSize tile1 < 3
   \<and> calc_shift ref10 ref10_gt tile1 tile4_gt = Inr (None, None)"
proof -
  have x: "XSize tile1 < 3" and y: "YSize tile1 < 3"
    by (simp_all add: tile1_def)
  from calc_shift_small_tile [OF x y, of ref10 ref10_gt tile4_gt]
  have "calc_shift ref10 ref10_gt tile1 tile4_gt = Inr (None, None)"
    by (simp add: tile1_no_match)
  with x y show ?thesis by simp
qed

end
